theory Spec2Isabelle
  imports Complex_Main "HOL-Library.AList"
begin

section \<open>Data model of a partition (class TheanoPartition)\<close>

text \<open>
  The exceptions the partition's methods raise. \<open>ValueError\<close> is raised explicitly by the
  editing and bulk API and by the array library on a shape it cannot align or broadcast;
  \<open>KeyError\<close> by a dictionary lookup of a missing key; \<open>IndexError\<close> by an array
  access outside its bounds; \<open>RecursionError\<close> by a recursion deeper than the
  interpreter allows.
\<close>

datatype error = ValueError | KeyError | IndexError | RecursionError

text \<open>
  Activations and gate parameters are float arrays; they are modelled over the reals, so
  rounding is not part of the model. The weight matrix is modelled by its values, row = slot
  element, column = gate element; the \<open>sparse\<close> flag selects the library that stores
  it, which matters only where the two libraries treat a call differently (the shape of a
  block assigned by set_link_weights). Integer arrays hold naturals, except the change stamps, the countdown and
  the node allocation hint, which can be negative. A nodespace's groups are a dictionary of
  dictionaries of element index arrays; an incoming inter-partition block is a tuple
  (from elements, to elements, weights) stored under the source partition's id.
\<close>

record partition =
  pid :: nat
  NoN :: nat
  NoE :: nat
  NoNS :: nat
  sparse :: bool
  allocated_nodes :: "nat list"
  nodes_last_changed :: "int list"
  allocated_node_offsets :: "nat list"
  allocated_elements_to_nodes :: "nat list"
  allocated_node_parents :: "nat list"
  allocated_nodespaces :: "nat list"
  nodespaces_last_changed :: "int list"
  nodespaces_contents_last_changed :: "int list"
  allocated_nodespaces_por_activators :: "nat list"
  allocated_nodespaces_ret_activators :: "nat list"
  allocated_nodespaces_sub_activators :: "nat list"
  allocated_nodespaces_sur_activators :: "nat list"
  allocated_nodespaces_cat_activators :: "nat list"
  allocated_nodespaces_exp_activators :: "nat list"
  allocated_nodespaces_sampling_activators :: "nat list"
  allocated_elements_to_activators :: "nat list"
  nodegroups :: "string \<rightharpoonup> (string \<rightharpoonup> nat list)"
  inlinks :: "(nat \<times> nat list \<times> nat list \<times> real list list) list"
  w :: "real list list"
  t :: int
  a :: "real list"
  a_in :: "real list"
  a_prev :: "real list"
  g_theta :: "real list"
  g_factor :: "real list"
  g_threshold :: "real list"
  g_amplification :: "real list"
  g_min :: "real list"
  g_max :: "real list"
  g_function_selector :: "nat list"
  g_expect :: "real list"
  g_countdown :: "int list"
  g_wait :: "int list"
  n_function_selector :: "nat list"
  n_node_porlinked :: "nat list"
  n_node_retlinked :: "nat list"
  has_new_usages :: bool
  has_pipes :: bool
  has_lstms :: bool
  has_directional_activators :: bool
  has_sampling_activators :: bool
  has_gatefunction_absolute :: bool
  has_gatefunction_sigmoid :: bool
  has_gatefunction_tanh :: bool
  has_gatefunction_rect :: bool
  has_gatefunction_one_over_x :: bool
  por_ret_dirty :: bool
  last_allocated_node :: int
  last_allocated_offset :: nat
  last_allocated_nodespace :: nat

text \<open>
  The constructor \<open>__init__\<close> with its default \<open>sparse=True\<close>: every array at its
  default, nothing allocated.
\<close>

definition init :: "nat \<Rightarrow> nat \<Rightarrow> nat \<Rightarrow> nat \<Rightarrow> partition" where
  "init pid0 initial_number_of_nodes average_elements_per_node_assumption
        initial_number_of_nodespaces =
     (let non = initial_number_of_nodes;
          noe = initial_number_of_nodes * average_elements_per_node_assumption;
          nons = initial_number_of_nodespaces
      in \<lparr> pid = pid0, NoN = non, NoE = noe, NoNS = nons,
           sparse = True,
           allocated_nodes = replicate non 0,
           nodes_last_changed = replicate non (- 1),
           allocated_node_offsets = replicate non 0,
           allocated_elements_to_nodes = replicate noe 0,
           allocated_node_parents = replicate non 0,
           allocated_nodespaces = replicate nons 0,
           nodespaces_last_changed = replicate nons (- 1),
           nodespaces_contents_last_changed = replicate nons (- 1),
           allocated_nodespaces_por_activators = replicate nons 0,
           allocated_nodespaces_ret_activators = replicate nons 0,
           allocated_nodespaces_sub_activators = replicate nons 0,
           allocated_nodespaces_sur_activators = replicate nons 0,
           allocated_nodespaces_cat_activators = replicate nons 0,
           allocated_nodespaces_exp_activators = replicate nons 0,
           allocated_nodespaces_sampling_activators = replicate nons 0,
           allocated_elements_to_activators = replicate noe 0,
           nodegroups = Map.empty,
           inlinks = [],
           w = replicate noe (replicate noe 0),
           t = 0,
           a = replicate noe 0,
           a_in = replicate noe 0,
           a_prev = replicate noe 0,
           g_theta = replicate noe 0,
           g_factor = replicate noe 1,
           g_threshold = replicate noe 0,
           g_amplification = replicate noe 1,
           g_min = replicate noe 0,
           g_max = replicate noe 1,
           g_function_selector = replicate noe 0,
           g_expect = replicate noe 1,
           g_countdown = replicate noe 0,
           g_wait = replicate noe 1,
           n_function_selector = replicate noe 0,
           n_node_porlinked = replicate noe 0,
           n_node_retlinked = replicate noe 0,
           has_new_usages = True,
           has_pipes = False,
           has_lstms = False,
           has_directional_activators = False,
           has_sampling_activators = False,
           has_gatefunction_absolute = False,
           has_gatefunction_sigmoid = False,
           has_gatefunction_tanh = False,
           has_gatefunction_rect = False,
           has_gatefunction_one_over_x = False,
           por_ret_dirty = True,
           last_allocated_node = 0,
           last_allocated_offset = 0,
           last_allocated_nodespace = 0 \<rparr>)"

section \<open>Constants of theano_definitions\<close>

text \<open>
  Modelled from the spec: the constants table of the module theano_definitions, which the
  partition imports and which is not among the sources. The gate and slot indices follow the
  order gen, por, ret, sub, sur, cat, exp of a Pipe (gen, por, gin, gou, gfg of an LSTM); the
  selector values follow the two enumerations of the spec, counted from 0. The numeric node
  types are only compared with each other and with 0 (a free id).
\<close>

definition GEN :: nat where "GEN = 0"
definition POR :: nat where "POR = 1"
definition RET :: nat where "RET = 2"
definition SUB :: nat where "SUB = 3"
definition SUR :: nat where "SUR = 4"
definition CAT :: nat where "CAT = 5"
definition EXP :: nat where "EXP = 6"
definition GIN :: nat where "GIN = 2"
definition GOU :: nat where "GOU = 3"
definition GFG :: nat where "GFG = 4"

definition GATE_FUNCTION_IDENTITY :: nat where "GATE_FUNCTION_IDENTITY = 0"
definition GATE_FUNCTION_ABSOLUTE :: nat where "GATE_FUNCTION_ABSOLUTE = 1"
definition GATE_FUNCTION_SIGMOID :: nat where "GATE_FUNCTION_SIGMOID = 2"
definition GATE_FUNCTION_TANH :: nat where "GATE_FUNCTION_TANH = 3"
definition GATE_FUNCTION_RECT :: nat where "GATE_FUNCTION_RECT = 4"
definition GATE_FUNCTION_DIST :: nat where "GATE_FUNCTION_DIST = 5"

definition NFPG_PIPE_NON :: nat where "NFPG_PIPE_NON = 0"
definition NFPG_PIPE_GEN :: nat where "NFPG_PIPE_GEN = 1"
definition NFPG_PIPE_POR :: nat where "NFPG_PIPE_POR = 2"
definition NFPG_PIPE_RET :: nat where "NFPG_PIPE_RET = 3"
definition NFPG_PIPE_SUB :: nat where "NFPG_PIPE_SUB = 4"
definition NFPG_PIPE_SUR :: nat where "NFPG_PIPE_SUR = 5"
definition NFPG_PIPE_CAT :: nat where "NFPG_PIPE_CAT = 6"
definition NFPG_PIPE_EXP :: nat where "NFPG_PIPE_EXP = 7"
definition NFPG_LSTM_GEN :: nat where "NFPG_LSTM_GEN = 8"
definition NFPG_LSTM_POR :: nat where "NFPG_LSTM_POR = 9"
definition NFPG_LSTM_GIN :: nat where "NFPG_LSTM_GIN = 10"
definition NFPG_LSTM_GOU :: nat where "NFPG_LSTM_GOU = 11"
definition NFPG_LSTM_GFG :: nat where "NFPG_LSTM_GFG = 12"

definition REGISTER :: nat where "REGISTER = 1"
definition SENSOR :: nat where "SENSOR = 2"
definition ACTUATOR :: nat where "ACTUATOR = 3"
definition ACTIVATOR :: nat where "ACTIVATOR = 4"
definition CONCEPT :: nat where "CONCEPT = 5"
definition PIPE :: nat where "PIPE = 7"
definition COMMENT :: nat where "COMMENT = 8"
definition LSTM :: nat where "LSTM = 9"
definition MAX_STD_NODETYPE :: nat where "MAX_STD_NODETYPE = 9"

section \<open>Linear propagation (compile_propagate)\<close>

text \<open>
  \<open>dot m v\<close> is the matrix-vector product of the array library: one sum of products per
  row. The library refuses operands whose shapes do not align, which \<open>shapes_aligned\<close>
  decides for the three arrays the propagation reads.
\<close>

definition dot :: "real list list \<Rightarrow> real list \<Rightarrow> real list" where
  "dot m v = map (\<lambda>row. sum_list (map2 (*) row v)) m"

definition shapes_aligned :: "partition \<Rightarrow> bool" where
  "shapes_aligned p \<longleftrightarrow>
     length (w p) = length (a_in p) \<and> list_all (\<lambda>row. length row = length (a p)) (w p)"

text \<open>
  The compiled function applies its three updates simultaneously, each right-hand side
  computed from the values before the call.
\<close>

definition propagate :: "partition \<Rightarrow> error + partition" where
  "propagate p =
     (if shapes_aligned p
      then Inr (p\<lparr> a_prev := a p,
                  a := map2 (+) (a_in p) (dot (w p) (a p)),
                  a_in := replicate (length (a_in p)) 0 \<rparr>)
      else Inl ValueError)"

section \<open>The node calculation (compile_calculate_nodes)\<close>

subsection \<open>Scalar operations of the array library\<close>

text \<open>
  \<open>switch\<close> is the elementwise conditional, \<open>clip\<close> the library's clipping (below the
  lower bound the lower bound, else above the upper bound the upper bound, else the value),
  \<open>sigmoid\<close> the logistic function. \<open>int16\<close> wraps an integer to the 16-bit range of the
  countdown array.
\<close>

definition switch :: "bool \<Rightarrow> 'a \<Rightarrow> 'a \<Rightarrow> 'a" where
  "switch c x y = (if c then x else y)"

definition clip :: "real \<Rightarrow> real \<Rightarrow> real \<Rightarrow> real" where
  "clip x lo hi = (if x < lo then lo else if x > hi then hi else x)"

definition sigmoid :: "real \<Rightarrow> real" where
  "sigmoid x = 1 / (1 + exp (- x))"

definition int16 :: "int \<Rightarrow> int" where
  "int16 x = (x + 32768) mod 65536 - 32768"

subsection \<open>The shifted views (__rebuild_shifted)\<close>

text \<open>
  \<open>np_roll k xs\<close> moves every entry k places to the right, cyclically. The view of shape
  (NoE, 14) with both strides one float has, at row i and column k, the entry i + k of the
  rolled array. For i + k beyond the array the source reads the memory that follows the
  buffer; the model leaves such an entry unspecified.
\<close>

definition np_roll :: "nat \<Rightarrow> 'a list \<Rightarrow> 'a list" where
  "np_roll k xs = (if xs = [] then [] else rotate (length xs - k mod length xs) xs)"

definition as_strided :: "'a list \<Rightarrow> nat \<Rightarrow> nat \<Rightarrow> 'a" where
  "as_strided xs i k = xs ! (i + k)"

definition a_shifted :: "partition \<Rightarrow> nat \<Rightarrow> nat \<Rightarrow> real" where
  "a_shifted p = as_strided (np_roll 7 (a p))"

definition g_theta_shifted :: "partition \<Rightarrow> nat \<Rightarrow> nat \<Rightarrow> real" where
  "g_theta_shifted p = as_strided (np_roll 7 (g_theta p))"

subsection \<open>Pipe plumbing\<close>

text \<open>
  Each rule is the source's vector expression at one element: \<open>s\<close> is the element's row of
  the shifted view, \<open>E\<close> its expectation, \<open>cd\<close> its countdown, \<open>wt\<close> its wait,
  \<open>pl\<close> and \<open>rl\<close> its por-linked and ret-linked flags. A comparison of the source yields
  0 or 1; products of comparisons are conjunctions, and a sum of comparisons used as a
  condition is a disjunction.
\<close>

definition pipe_gen :: "(nat \<Rightarrow> real) \<Rightarrow> real \<Rightarrow> nat \<Rightarrow> real" where
  "pipe_gen s E pl =
     (let sur_exp = s 11 + s 13;
          sur_exp = switch (sur_exp < E \<and> sur_exp > 0) 0 sur_exp;
          g = s 7 * s 10;
          g = switch (\<bar>g\<bar> > 0.1) g sur_exp;
          g = switch (s 8 = 0 \<and> pl = 1) sur_exp g
      in g)"

definition pipe_por_cond :: "(nat \<Rightarrow> real) \<Rightarrow> nat \<Rightarrow> real" where
  "pipe_por_cond s pl = switch (pl = 1) (of_bool (s 7 > 0)) 1 * of_bool (s 9 > 0)"

definition pipe_por_base :: "(nat \<Rightarrow> real) \<Rightarrow> real" where
  "pipe_por_base s = s 10 + of_bool (s 6 > 0.1)"

definition pipe_por :: "(nat \<Rightarrow> real) \<Rightarrow> real \<Rightarrow> int \<Rightarrow> nat \<Rightarrow> real" where
  "pipe_por s E cd pl =
     (let v = pipe_por_base s;
          v = switch (cd \<le> 0 \<and> v < E) (- 1) v;
          v = v * pipe_por_cond s pl;
          v = v + s 7 * of_bool (s 9 = 0) * of_bool (s 10 = 0)
      in v)"

definition countdown_por :: "(nat \<Rightarrow> real) \<Rightarrow> real \<Rightarrow> int \<Rightarrow> int \<Rightarrow> nat \<Rightarrow> int" where
  "countdown_por s E cd wt pl =
     (let cdrc_por = (s 9 \<le> 0 \<or> (pl = 1 \<and> s 7 \<le> 0));
          c = switch cdrc_por wt (max (int16 (cd - 1)) (- 1));
          c = switch (pipe_por s E cd pl \<ge> E) wt c
      in c)"

definition pipe_ret :: "(nat \<Rightarrow> real) \<Rightarrow> real" where
  "pipe_ret s = of_bool (s 6 < 0) + s 7 * of_bool (s 8 = 0) * of_bool (s 9 = 0)"

definition pipe_sub :: "(nat \<Rightarrow> real) \<Rightarrow> nat \<Rightarrow> real" where
  "pipe_sub s pl =
     (let pipe_sub_cond = switch (pl = 1) (of_bool (s 5 > 0)) 1 * of_bool (s 4 = 0)
      in (s 7 + s 9) * pipe_sub_cond)"

definition pipe_sur_base :: "(nat \<Rightarrow> real) \<Rightarrow> real" where
  "pipe_sur_base s = s 7 + of_bool (s 3 > 0.2) + s 9 * s 6"

definition pipe_sur_confirmed :: "(nat \<Rightarrow> real) \<Rightarrow> real \<Rightarrow> int \<Rightarrow> real" where
  "pipe_sur_confirmed s E cd =
     (let v = pipe_sur_base s;
          v = switch (v < E \<and> v > 0) 0 v;
          v = switch (cd \<le> 0 \<and> v < E) (- 1) v
      in v)"

definition countdown_sur :: "(nat \<Rightarrow> real) \<Rightarrow> real \<Rightarrow> int \<Rightarrow> int \<Rightarrow> nat \<Rightarrow> int" where
  "countdown_sur s E cd wt pl =
     (let cd_reset_cond = (s 6 \<le> 0 \<or> (pl = 1 \<and> s 4 \<le> 0));
          c = switch cd_reset_cond wt (max (int16 (cd - 1)) (- 1));
          c = switch (pipe_sur_confirmed s E cd \<ge> E) wt c
      in c)"

definition pipe_sur :: "(nat \<Rightarrow> real) \<Rightarrow> real \<Rightarrow> int \<Rightarrow> nat \<Rightarrow> nat \<Rightarrow> real" where
  "pipe_sur s E cd pl rl =
     (let pipe_sur_cond = (pl = 0 \<or> s 4 > 0);
          v = pipe_sur_confirmed s E cd;
          v = v * switch (rl = 1) (s 5) 1;
          v = v * of_bool pipe_sur_cond
      in v)"

definition pipe_cat :: "(nat \<Rightarrow> real) \<Rightarrow> nat \<Rightarrow> real" where
  "pipe_cat s pl =
     (let pipe_cat_cond = switch (pl = 1) (of_bool (s 3 > 0)) 1 * of_bool (s 2 = 0);
          v = clip (s 6) 0 1;
          v = v + s 5;
          v = v + s 7;
          v = v * pipe_cat_cond;
          v = v + s 7 * of_bool (s 5 = 0) * of_bool (s 6 = 0)
      in v)"

definition pipe_exp :: "(nat \<Rightarrow> real) \<Rightarrow> real" where
  "pipe_exp s = s 5 + s 7 + of_bool (s 1 * s 4 > 0.2)"

subsection \<open>LSTM plumbing\<close>

definition lstm_gen :: "(nat \<Rightarrow> real) \<Rightarrow> (nat \<Rightarrow> real) \<Rightarrow> real" where
  "lstm_gen s b =
     (let net_c = s 8 + b 8; net_in = s 9 + b 9; net_phi = s 11 + b 11;
          y_in = sigmoid net_in; y_phi = sigmoid net_phi;
          g = 4 * sigmoid net_c - 2
      in s 7 * y_phi + g * y_in)"

definition lstm_por :: "(nat \<Rightarrow> real) \<Rightarrow> (nat \<Rightarrow> real) \<Rightarrow> real" where
  "lstm_por s b =
     (let net_c = s 7 + b 7; net_in = s 8 + b 8; net_out = s 9 + b 9; net_phi = s 10 + b 10;
          y_in = sigmoid net_in; y_out = sigmoid net_out; y_phi = sigmoid net_phi;
          g = 4 * sigmoid net_c - 2;
          s' = s 6 * y_phi + g * y_in;
          h = 2 * sigmoid s' - 1
      in h * y_out)"

definition lstm_gate :: "(nat \<Rightarrow> real) \<Rightarrow> (nat \<Rightarrow> real) \<Rightarrow> real" where
  "lstm_gate s b = sigmoid (s 7 + b 7)"

subsection \<open>Dispatch on the node function selector\<close>

text \<open>
  \<open>sample\<close> is the LSTM sampling predicate at one element. \<open>nodefunctions\<close> is the value
  the source's vector of the same name has at element i after the chain of switches: the
  activation itself by default, a Pipe rule (times the gate factor, except for gen, when
  directional activators are in use) or an LSTM rule (held at the previous activation when
  not sampling) where the selector says so.
\<close>

definition sample :: "partition \<Rightarrow> nat \<Rightarrow> bool" where
  "sample p i \<longleftrightarrow>
     t p mod 3 = 0 \<and> (if has_sampling_activators p then g_factor p ! i > 0.99 else True)"

definition nodefunctions ::
  "partition \<Rightarrow> (nat \<Rightarrow> nat \<Rightarrow> real) \<Rightarrow> (nat \<Rightarrow> nat \<Rightarrow> real) \<Rightarrow> nat \<Rightarrow> real" where
  "nodefunctions p slots biases i =
     (let sel = n_function_selector p ! i;
          s = slots i; b = biases i;
          E = g_expect p ! i; cd = g_countdown p ! i;
          pl = n_node_porlinked p ! i; rl = n_node_retlinked p ! i;
          f = (if has_directional_activators p then g_factor p ! i else 1);
          nf = a p ! i;
          nf = (if has_pipes p then
                  (let nf = switch (sel = NFPG_PIPE_GEN) (pipe_gen s E pl) nf;
                       nf = switch (sel = NFPG_PIPE_POR) (pipe_por s E cd pl * f) nf;
                       nf = switch (sel = NFPG_PIPE_RET) (pipe_ret s * f) nf;
                       nf = switch (sel = NFPG_PIPE_SUB) (pipe_sub s pl * f) nf;
                       nf = switch (sel = NFPG_PIPE_SUR) (pipe_sur s E cd pl rl * f) nf;
                       nf = switch (sel = NFPG_PIPE_CAT) (pipe_cat s pl * f) nf;
                       nf = switch (sel = NFPG_PIPE_EXP) (pipe_exp s * f) nf
                   in nf)
                else nf);
          nf = (if has_lstms p then
                  (let hold = a_prev p ! i;
                       nf = switch (sel = NFPG_LSTM_GEN)
                              (switch (sample p i) (lstm_gen s b) hold) nf;
                       nf = switch (sel = NFPG_LSTM_POR)
                              (switch (sample p i) (lstm_por s b) hold) nf;
                       nf = switch (sel = NFPG_LSTM_GIN)
                              (switch (sample p i) (lstm_gate s b) hold) nf;
                       nf = switch (sel = NFPG_LSTM_GOU)
                              (switch (sample p i) (lstm_gate s b) hold) nf;
                       nf = switch (sel = NFPG_LSTM_GFG)
                              (switch (sample p i) (lstm_gate s b) hold) nf
                   in nf)
                else nf)
      in nf)"

definition countdown :: "partition \<Rightarrow> (nat \<Rightarrow> nat \<Rightarrow> real) \<Rightarrow> nat \<Rightarrow> int" where
  "countdown p slots i =
     (let sel = n_function_selector p ! i; s = slots i;
          E = g_expect p ! i; cd = g_countdown p ! i; wt = g_wait p ! i;
          pl = n_node_porlinked p ! i;
          c = switch (sel = NFPG_PIPE_POR) (countdown_por s E cd wt pl) cd;
          c = switch (sel = NFPG_PIPE_SUR) (countdown_sur s E cd wt pl) c
      in c)"

subsection \<open>Gate logic\<close>

text \<open>
  The four stages of the gate logic at element i, under the names the source gives their
  vectors. A transfer function is compiled in only when its usage flag is set.
\<close>

definition gate_function_output :: "partition \<Rightarrow> nat \<Rightarrow> real \<Rightarrow> real" where
  "gate_function_output p i x =
     (let sel = g_function_selector p ! i; th = g_theta p ! i;
          x = (if has_gatefunction_absolute p
               then switch (sel = GATE_FUNCTION_ABSOLUTE) \<bar>x\<bar> x else x);
          x = (if has_gatefunction_sigmoid p
               then switch (sel = GATE_FUNCTION_SIGMOID) (sigmoid (x + th)) x else x);
          x = (if has_gatefunction_tanh p
               then switch (sel = GATE_FUNCTION_TANH) (tanh (x + th)) x else x);
          x = (if has_gatefunction_rect p
               then switch (sel = GATE_FUNCTION_RECT) (switch (x + th > 0) (x - th) 0) x else x);
          x = (if has_gatefunction_one_over_x p
               then switch (sel = GATE_FUNCTION_DIST) (switch (0 \<noteq> x) (1 / x) 0) x else x)
      in x)"

definition thresholded_gate_function_output :: "partition \<Rightarrow> nat \<Rightarrow> real \<Rightarrow> real" where
  "thresholded_gate_function_output p i x = switch (x \<ge> g_threshold p ! i) x 0"

definition amplified_gate_function_output :: "partition \<Rightarrow> nat \<Rightarrow> real \<Rightarrow> real" where
  "amplified_gate_function_output p i x = x * g_amplification p ! i"

definition limited_gate_function_output :: "partition \<Rightarrow> nat \<Rightarrow> real \<Rightarrow> real" where
  "limited_gate_function_output p i x = clip x (g_min p ! i) (g_max p ! i)"

definition gatefunctions :: "partition \<Rightarrow> nat \<Rightarrow> real \<Rightarrow> real" where
  "gatefunctions p i x =
     limited_gate_function_output p i
       (amplified_gate_function_output p i
          (thresholded_gate_function_output p i
             (gate_function_output p i x)))"

subsection \<open>The compiled node calculation\<close>

text \<open>
  The partition keeps every per-element array at length NoE, and the compiled function
  refuses elementwise operands of different lengths. It updates the activations, and the
  countdowns when Pipes are in use, simultaneously from the values before the call.
\<close>

definition elementwise_aligned :: "partition \<Rightarrow> bool" where
  "elementwise_aligned p \<longleftrightarrow>
     length (a p) = NoE p \<and> length (a_prev p) = NoE p \<and> length (g_theta p) = NoE p
     \<and> length (g_factor p) = NoE p \<and> length (g_threshold p) = NoE p
     \<and> length (g_amplification p) = NoE p \<and> length (g_min p) = NoE p
     \<and> length (g_max p) = NoE p \<and> length (g_function_selector p) = NoE p
     \<and> length (g_expect p) = NoE p \<and> length (g_countdown p) = NoE p
     \<and> length (g_wait p) = NoE p \<and> length (n_function_selector p) = NoE p
     \<and> length (n_node_porlinked p) = NoE p \<and> length (n_node_retlinked p) = NoE p"

definition calculate_nodes ::
  "(nat \<Rightarrow> nat \<Rightarrow> real) \<Rightarrow> (nat \<Rightarrow> nat \<Rightarrow> real) \<Rightarrow> partition \<Rightarrow> error + partition" where
  "calculate_nodes slots biases p =
     (if elementwise_aligned p
      then Inr (p\<lparr> a := map (\<lambda>i. gatefunctions p i (nodefunctions p slots biases i))
                            [0..<NoE p],
                  g_countdown := (if has_pipes p then map (countdown p slots) [0..<NoE p]
                                  else g_countdown p) \<rparr>)
      else Inl ValueError)"

section \<open>What the partition reads from its nodenet\<close>

text \<open>
  The partition calls back into the nodenet that owns it for the current step and for the
  node type definitions, and into theano_definitions for the tables that translate type
  names to numbers. Neither is among the sources; the record below carries what the
  partition's methods read from them, as a parameter of the model.
  \<open>native_type\<close> numbers the native module names, \<open>native_elements\<close>,
  \<open>native_gates\<close> and \<open>native_slots\<close> give a native module's element, gate and slot
  counts, \<open>native_gatetypes\<close> and \<open>native_slottypes\<close> its gate and slot names;
  \<open>expectation_default\<close> and \<open>wait_default\<close> are the node type's parameter defaults,
  \<open>gate_defaults\<close> its gate parameter defaults as (gate, parameter, value) in iteration
  order, and \<open>gatetypes\<close> the names of its gates.
\<close>

record nodenet =
  current_step :: int
  native_type :: "string \<Rightarrow> nat"
  native_elements :: "nat \<Rightarrow> nat"
  native_gates :: "nat \<Rightarrow> nat"
  native_slots :: "nat \<Rightarrow> nat"
  native_gatetypes :: "nat \<Rightarrow> string list"
  native_slottypes :: "nat \<Rightarrow> string list"
  expectation_default :: "string \<Rightarrow> real option"
  wait_default :: "string \<Rightarrow> real option"
  gate_defaults :: "string \<Rightarrow> (string \<times> string \<times> real) list"
  gatetypes :: "string \<Rightarrow> string list"

text \<open>
  Modelled from the spec: the lookup functions of theano_definitions, which is not among the
  sources. The standard node types have the element counts of the spec's data model
  (Register 1, Sensor 1, Actuator 1, Concept 7, Pipe 7, LSTM 5, Activator 1, Comment 0) and,
  gates and slots being paired one-to-one with elements, as many gates and slots; native
  modules declare their own. A gate or slot name is translated to its index in
  the order gen, por, ret, sub, sur, cat, exp (gin, gou, gfg for the LSTM's last three), or
  in the native module's own list; a name that is not in the table is refused with a
  ValueError.
\<close>

definition get_numerical_node_type :: "nodenet \<Rightarrow> string \<Rightarrow> nat" where
  "get_numerical_node_type net nodetype =
     (if nodetype = ''Register'' then REGISTER
      else if nodetype = ''Sensor'' then SENSOR
      else if nodetype = ''Actor'' then ACTUATOR
      else if nodetype = ''Activator'' then ACTIVATOR
      else if nodetype = ''Concept'' then CONCEPT
      else if nodetype = ''Pipe'' then PIPE
      else if nodetype = ''Comment'' then COMMENT
      else if nodetype = ''LSTM'' then LSTM
      else native_type net nodetype)"

definition get_elements_per_type :: "nodenet \<Rightarrow> nat \<Rightarrow> nat" where
  "get_elements_per_type net ty =
     (if ty = REGISTER then 1
      else if ty = SENSOR then 1
      else if ty = ACTUATOR then 1
      else if ty = ACTIVATOR then 1
      else if ty = CONCEPT then 7
      else if ty = PIPE then 7
      else if ty = COMMENT then 0
      else if ty = LSTM then 5
      else native_elements net ty)"

definition get_gates_per_type :: "nodenet \<Rightarrow> nat \<Rightarrow> nat" where
  "get_gates_per_type net ty =
     (if ty \<le> MAX_STD_NODETYPE then get_elements_per_type net ty else native_gates net ty)"

definition get_slots_per_type :: "nodenet \<Rightarrow> nat \<Rightarrow> nat" where
  "get_slots_per_type net ty =
     (if ty \<le> MAX_STD_NODETYPE then get_elements_per_type net ty else native_slots net ty)"

fun index_of :: "'a \<Rightarrow> 'a list \<Rightarrow> error + nat" where
  "index_of x [] = Inl ValueError"
| "index_of x (y # ys) =
     (if x = y then Inr 0
      else (case index_of x ys of Inl e \<Rightarrow> Inl e | Inr n \<Rightarrow> Inr (Suc n)))"

definition get_numerical_gate_type :: "string \<Rightarrow> string list option \<Rightarrow> error + nat" where
  "get_numerical_gate_type gate_type nodetype =
     (case nodetype of
        Some names \<Rightarrow> index_of gate_type names
      | None \<Rightarrow>
          (if gate_type = ''gen'' then Inr GEN
           else if gate_type = ''por'' then Inr POR
           else if gate_type = ''ret'' then Inr RET
           else if gate_type = ''sub'' then Inr SUB
           else if gate_type = ''sur'' then Inr SUR
           else if gate_type = ''cat'' then Inr CAT
           else if gate_type = ''exp'' then Inr EXP
           else if gate_type = ''gin'' then Inr GIN
           else if gate_type = ''gou'' then Inr GOU
           else if gate_type = ''gfg'' then Inr GFG
           else Inl ValueError))"

definition get_numerical_slot_type :: "string \<Rightarrow> string list option \<Rightarrow> error + nat" where
  "get_numerical_slot_type slot_type nodetype = get_numerical_gate_type slot_type nodetype"

definition get_numerical_gatefunction_type :: "string \<Rightarrow> error + nat" where
  "get_numerical_gatefunction_type name =
     (if name = ''identity'' then Inr GATE_FUNCTION_IDENTITY
      else if name = ''absolute'' then Inr GATE_FUNCTION_ABSOLUTE
      else if name = ''sigmoid'' then Inr GATE_FUNCTION_SIGMOID
      else if name = ''tanh'' then Inr GATE_FUNCTION_TANH
      else if name = ''rect'' then Inr GATE_FUNCTION_RECT
      else if name = ''one_over_x'' then Inr GATE_FUNCTION_DIST
      else Inl ValueError)"

section \<open>The usage flags' setters\<close>

text \<open>Setting a usage flag to a new value marks the compiled functions as outdated.\<close>

definition set_has_pipes :: "bool \<Rightarrow> partition \<Rightarrow> partition" where
  "set_has_pipes v p =
     (if v \<noteq> has_pipes p then p\<lparr> has_new_usages := True, has_pipes := v \<rparr> else p)"

definition set_has_lstms :: "bool \<Rightarrow> partition \<Rightarrow> partition" where
  "set_has_lstms v p =
     (if v \<noteq> has_lstms p then p\<lparr> has_new_usages := True, has_lstms := v \<rparr> else p)"

definition set_has_directional_activators :: "bool \<Rightarrow> partition \<Rightarrow> partition" where
  "set_has_directional_activators v p =
     (if v \<noteq> has_directional_activators p
      then p\<lparr> has_new_usages := True, has_directional_activators := v \<rparr> else p)"

definition set_has_sampling_activators :: "bool \<Rightarrow> partition \<Rightarrow> partition" where
  "set_has_sampling_activators v p =
     (if v \<noteq> has_sampling_activators p
      then p\<lparr> has_new_usages := True, has_sampling_activators := v \<rparr> else p)"

definition set_has_gatefunction_absolute :: "bool \<Rightarrow> partition \<Rightarrow> partition" where
  "set_has_gatefunction_absolute v p =
     (if v \<noteq> has_gatefunction_absolute p
      then p\<lparr> has_new_usages := True, has_gatefunction_absolute := v \<rparr> else p)"

definition set_has_gatefunction_sigmoid :: "bool \<Rightarrow> partition \<Rightarrow> partition" where
  "set_has_gatefunction_sigmoid v p =
     (if v \<noteq> has_gatefunction_sigmoid p
      then p\<lparr> has_new_usages := True, has_gatefunction_sigmoid := v \<rparr> else p)"

definition set_has_gatefunction_tanh :: "bool \<Rightarrow> partition \<Rightarrow> partition" where
  "set_has_gatefunction_tanh v p =
     (if v \<noteq> has_gatefunction_tanh p
      then p\<lparr> has_new_usages := True, has_gatefunction_tanh := v \<rparr> else p)"

definition set_has_gatefunction_rect :: "bool \<Rightarrow> partition \<Rightarrow> partition" where
  "set_has_gatefunction_rect v p =
     (if v \<noteq> has_gatefunction_rect p
      then p\<lparr> has_new_usages := True, has_gatefunction_rect := v \<rparr> else p)"

definition set_has_gatefunction_one_over_x :: "bool \<Rightarrow> partition \<Rightarrow> partition" where
  "set_has_gatefunction_one_over_x v p =
     (if v \<noteq> has_gatefunction_one_over_x p
      then p\<lparr> has_new_usages := True, has_gatefunction_one_over_x := v \<rparr> else p)"

section \<open>Growth of the id and element vectors\<close>

text \<open>
  Each vector is replaced by a longer one that starts with the old entries; the new entries
  have the vector's default. The weight matrix gets new zero columns and rows. The
  por-linked and ret-linked flags are replaced by zeros altogether and marked dirty when
  Pipes are in use.
\<close>

definition grow_number_of_nodes :: "nat \<Rightarrow> partition \<Rightarrow> partition" where
  "grow_number_of_nodes growby p =
     p\<lparr> allocated_nodes := allocated_nodes p @ replicate growby 0,
        allocated_node_parents := allocated_node_parents p @ replicate growby 0,
        allocated_node_offsets := allocated_node_offsets p @ replicate growby 0,
        nodes_last_changed := nodes_last_changed p @ replicate growby 0,
        NoN := NoN p + growby,
        has_new_usages := True \<rparr>"

definition grow_number_of_nodespaces :: "nat \<Rightarrow> partition \<Rightarrow> partition" where
  "grow_number_of_nodespaces growby p =
     p\<lparr> allocated_nodespaces := allocated_nodespaces p @ replicate growby 0,
        allocated_nodespaces_por_activators :=
          allocated_nodespaces_por_activators p @ replicate growby 0,
        allocated_nodespaces_ret_activators :=
          allocated_nodespaces_ret_activators p @ replicate growby 0,
        allocated_nodespaces_sub_activators :=
          allocated_nodespaces_sub_activators p @ replicate growby 0,
        allocated_nodespaces_sur_activators :=
          allocated_nodespaces_sur_activators p @ replicate growby 0,
        allocated_nodespaces_cat_activators :=
          allocated_nodespaces_cat_activators p @ replicate growby 0,
        allocated_nodespaces_exp_activators :=
          allocated_nodespaces_exp_activators p @ replicate growby 0,
        allocated_nodespaces_sampling_activators :=
          allocated_nodespaces_sampling_activators p @ replicate growby 0,
        nodespaces_last_changed := nodespaces_last_changed p @ replicate growby 0,
        nodespaces_contents_last_changed :=
          nodespaces_contents_last_changed p @ replicate growby 0,
        has_new_usages := True,
        NoNS := NoNS p + growby \<rparr>"

definition grow_number_of_elements :: "nat \<Rightarrow> partition \<Rightarrow> partition" where
  "grow_number_of_elements growby p =
     (let new_NoE = NoE p + growby in
      p\<lparr> allocated_elements_to_nodes := allocated_elements_to_nodes p @ replicate growby 0,
         allocated_elements_to_activators :=
           allocated_elements_to_activators p @ replicate growby 0,
         w := map (\<lambda>row. row @ replicate growby 0) (w p)
              @ replicate growby (replicate new_NoE 0),
         a := a p @ replicate growby 0,
         a_in := a_in p @ replicate growby 0,
         a_prev := a_prev p @ replicate growby 0,
         g_theta := g_theta p @ replicate growby 0,
         g_factor := g_factor p @ replicate growby 1,
         g_threshold := g_threshold p @ replicate growby 0,
         g_amplification := g_amplification p @ replicate growby 1,
         g_min := g_min p @ replicate growby 0,
         g_max := g_max p @ replicate growby 1,
         g_function_selector := g_function_selector p @ replicate growby 0,
         g_expect := g_expect p @ replicate growby 1,
         g_countdown := g_countdown p @ replicate growby 0,
         g_wait := g_wait p @ replicate growby 1,
         n_function_selector := n_function_selector p @ replicate growby 0,
         n_node_porlinked := replicate new_NoE 0,
         n_node_retlinked := replicate new_NoE 0,
         NoE := new_NoE,
         has_new_usages := True,
         por_ret_dirty := (if has_pipes p then True else por_ret_dirty p) \<rparr>)"

section \<open>Array helpers\<close>

text \<open>
  \<open>and_then\<close> passes an exception on and continues with a result. \<open>set_all\<close> is the
  assignment of one value at an array of indices, \<open>set_range\<close> the loop that assigns one
  value at n consecutive indices, \<open>where_eq\<close> the indices at which an array holds a
  value, \<open>fold_err\<close> a loop whose body can raise.
\<close>

definition and_then :: "error + 'a \<Rightarrow> ('a \<Rightarrow> error + 'b) \<Rightarrow> error + 'b" where
  "and_then m f = (case m of Inl e \<Rightarrow> Inl e | Inr x \<Rightarrow> f x)"

definition set_all :: "'a list \<Rightarrow> nat list \<Rightarrow> 'a \<Rightarrow> 'a list" where
  "set_all xs idxs v = fold (\<lambda>i ys. ys[i := v]) idxs xs"

definition set_range :: "'a list \<Rightarrow> nat \<Rightarrow> nat \<Rightarrow> 'a \<Rightarrow> 'a list" where
  "set_range xs offset n v = set_all xs (map (\<lambda>k. offset + k) [0..<n]) v"

definition where_eq :: "'a list \<Rightarrow> 'a \<Rightarrow> nat list" where
  "where_eq xs v = filter (\<lambda>i. xs ! i = v) [0..<length xs]"

fun fold_err :: "('a \<Rightarrow> 's \<Rightarrow> error + 's) \<Rightarrow> 'a list \<Rightarrow> 's \<Rightarrow> error + 's" where
  "fold_err f [] s = Inr s"
| "fold_err f (x # xs) s = (case f x s of Inl e \<Rightarrow> Inl e | Inr s' \<Rightarrow> fold_err f xs s')"

section \<open>Gate parameters, gate functions and activators\<close>

definition native_nodetype :: "nodenet \<Rightarrow> nat \<Rightarrow> string list option" where
  "native_nodetype net ty =
     (if ty > MAX_STD_NODETYPE then Some (native_gatetypes net ty) else None)"

definition set_node_gate_parameter ::
  "nodenet \<Rightarrow> nat \<Rightarrow> string \<Rightarrow> string \<Rightarrow> real \<Rightarrow> partition \<Rightarrow> error + partition" where
  "set_node_gate_parameter net id0 gate_type parameter val p =
     (if id0 \<ge> length (allocated_nodes p) \<or> id0 \<ge> length (allocated_node_offsets p)
      then Inl IndexError
      else and_then (get_numerical_gate_type gate_type
                       (native_nodetype net (allocated_nodes p ! id0)))
        (\<lambda>g. let elementindex = allocated_node_offsets p ! id0 + g in
           if parameter = ''threshold'' then
             (if elementindex < length (g_threshold p)
              then Inr (p\<lparr> g_threshold := (g_threshold p)[elementindex := val] \<rparr>)
              else Inl IndexError)
           else if parameter = ''amplification'' then
             (if elementindex < length (g_amplification p)
              then Inr (p\<lparr> g_amplification := (g_amplification p)[elementindex := val] \<rparr>)
              else Inl IndexError)
           else if parameter = ''minimum'' then
             (if elementindex < length (g_min p)
              then Inr (p\<lparr> g_min := (g_min p)[elementindex := val] \<rparr>)
              else Inl IndexError)
           else if parameter = ''maximum'' then
             (if elementindex < length (g_max p)
              then Inr (p\<lparr> g_max := (g_max p)[elementindex := val] \<rparr>)
              else Inl IndexError)
           else if parameter = ''theta'' then
             (if elementindex < length (g_theta p)
              then Inr (p\<lparr> g_theta := (g_theta p)[elementindex := val] \<rparr>)
              else Inl IndexError)
           else Inr p))"

definition set_node_gatefunction_name ::
  "nodenet \<Rightarrow> nat \<Rightarrow> string \<Rightarrow> string \<Rightarrow> partition \<Rightarrow> error + partition" where
  "set_node_gatefunction_name net id0 gate_type gatefunction_name p =
     (if id0 \<ge> length (allocated_nodes p) \<or> id0 \<ge> length (allocated_node_offsets p)
      then Inl IndexError
      else and_then (get_numerical_gate_type gate_type
                       (native_nodetype net (allocated_nodes p ! id0)))
        (\<lambda>g. let elementindex = allocated_node_offsets p ! id0 + g in
           and_then (get_numerical_gatefunction_type gatefunction_name)
             (\<lambda>f. if elementindex \<ge> length (g_function_selector p) then Inl IndexError
                  else
                    (let p = p\<lparr> g_function_selector :=
                                   (g_function_selector p)[elementindex := f] \<rparr>
                     in Inr (if f = GATE_FUNCTION_ABSOLUTE
                             then set_has_gatefunction_absolute True p
                             else if f = GATE_FUNCTION_SIGMOID
                             then set_has_gatefunction_sigmoid True p
                             else if f = GATE_FUNCTION_TANH
                             then set_has_gatefunction_tanh True p
                             else if f = GATE_FUNCTION_RECT
                             then set_has_gatefunction_rect True p
                             else if f = GATE_FUNCTION_DIST
                             then set_has_gatefunction_one_over_x True p
                             else p)))))"

text \<open>
  Assigning an activator to a nodespace stores its id in the table of the gate type and
  maps the matching element of every Pipe (every element of every LSTM, for the sampling
  activator) of the nodespace to the activator's element.
\<close>

definition set_nodespace_gatetype_activator ::
  "nat \<Rightarrow> string \<Rightarrow> nat \<Rightarrow> partition \<Rightarrow> error + partition" where
  "set_nodespace_gatetype_activator nodespace_id gate_type activator_id p =
     and_then
       (if gate_type \<in> {''por'', ''ret'', ''sub'', ''sur'', ''cat'', ''exp''}
        then (if nodespace_id \<ge> NoNS p then Inl IndexError
              else Inr (set_has_directional_activators True
                (if gate_type = ''por'' then
                   p\<lparr> allocated_nodespaces_por_activators :=
                        (allocated_nodespaces_por_activators p)[nodespace_id := activator_id] \<rparr>
                 else if gate_type = ''ret'' then
                   p\<lparr> allocated_nodespaces_ret_activators :=
                        (allocated_nodespaces_ret_activators p)[nodespace_id := activator_id] \<rparr>
                 else if gate_type = ''sub'' then
                   p\<lparr> allocated_nodespaces_sub_activators :=
                        (allocated_nodespaces_sub_activators p)[nodespace_id := activator_id] \<rparr>
                 else if gate_type = ''sur'' then
                   p\<lparr> allocated_nodespaces_sur_activators :=
                        (allocated_nodespaces_sur_activators p)[nodespace_id := activator_id] \<rparr>
                 else if gate_type = ''cat'' then
                   p\<lparr> allocated_nodespaces_cat_activators :=
                        (allocated_nodespaces_cat_activators p)[nodespace_id := activator_id] \<rparr>
                 else
                   p\<lparr> allocated_nodespaces_exp_activators :=
                        (allocated_nodespaces_exp_activators p)[nodespace_id := activator_id] \<rparr>)))
        else Inr p)
       (fold_err
          (\<lambda>nid p.
             if allocated_nodes p ! nid = PIPE then
               and_then (get_numerical_gate_type gate_type None)
                 (\<lambda>g. let e = allocated_node_offsets p ! nid + g in
                    if e \<ge> length (allocated_elements_to_activators p)
                       \<or> activator_id \<ge> length (allocated_node_offsets p)
                    then Inl IndexError
                    else Inr (p\<lparr> allocated_elements_to_activators :=
                                    (allocated_elements_to_activators p)
                                      [e := allocated_node_offsets p ! activator_id] \<rparr>))
             else Inr p)
          (where_eq (allocated_node_parents p) nodespace_id))"

definition set_nodespace_sampling_activator ::
  "nat \<Rightarrow> nat \<Rightarrow> partition \<Rightarrow> error + partition" where
  "set_nodespace_sampling_activator nodespace_id activator_id p =
     (if nodespace_id \<ge> NoNS p then Inl IndexError
      else fold_err
          (\<lambda>nid p.
             if allocated_nodes p ! nid = LSTM then
               (let off = allocated_node_offsets p ! nid in
                if off + GFG \<ge> length (allocated_elements_to_activators p)
                   \<or> activator_id \<ge> length (allocated_node_offsets p)
                then Inl IndexError
                else Inr (p\<lparr> allocated_elements_to_activators :=
                                set_all (allocated_elements_to_activators p)
                                  [off + GEN, off + POR, off + GIN, off + GOU, off + GFG]
                                  (allocated_node_offsets p ! activator_id) \<rparr>))
             else Inr p)
          (where_eq (allocated_node_parents p) nodespace_id)
          (set_has_sampling_activators True
             (p\<lparr> allocated_nodespaces_sampling_activators :=
                  (allocated_nodespaces_sampling_activators p)
                    [nodespace_id := activator_id] \<rparr>)))"

section \<open>Allocation of node ids and element offsets (create_node)\<close>

text \<open>
  \<open>find_free_node_id\<close> is the search of create_node for a call without an id: a scan
  upward from the hint, then, if that left the id at 0, a scan of \<open>range(hint - 1)\<close>, then,
  if the id is still below 1, growth by half the capacity with the old capacity as the id.
  The hint is never below -1 (delete_node sets it to the deleted id minus one), so the first
  scan starts at a natural number.
\<close>

definition find_free_node_id :: "partition \<Rightarrow> nat \<times> partition" where
  "find_free_node_id p =
     (let id0 = (case find (\<lambda>i. allocated_nodes p ! i = 0)
                          [nat (last_allocated_node p + 1)..<NoN p]
                of Some i \<Rightarrow> i | None \<Rightarrow> 0);
          id0 = (if id0 < 1
                then (case find (\<lambda>i. allocated_nodes p ! i = 0)
                                [0..<nat (last_allocated_node p - 1)]
                      of Some i \<Rightarrow> i | None \<Rightarrow> id0)
                else id0)
      in if id0 < 1 then (NoN p, grow_number_of_nodes (NoN p div 2) p) else (id0, p))"

text \<open>With an id given, the vectors grow only when the id is beyond the capacity.\<close>

definition use_given_node_id :: "nat \<Rightarrow> partition \<Rightarrow> nat \<times> partition" where
  "use_given_node_id id0 p =
     (if id0 > NoN p then (id0, grow_number_of_nodes (id0 + 2 - NoN p) p) else (id0, p))"

text \<open>
  \<open>free_run xs i n\<close> counts the free elements from i on, up to n, stopping at the first
  element that is taken or outside the array. \<open>find_offset\<close> is the while loop that looks
  for n consecutive free elements from i on, restarts once from 0 when it runs past the
  end, and then grows the element vectors.
\<close>

fun free_run :: "nat list \<Rightarrow> nat \<Rightarrow> nat \<Rightarrow> nat" where
  "free_run xs i 0 = 0"
| "free_run xs i (Suc n) =
     (if i < length xs \<and> xs ! i = 0 then Suc (free_run xs (Suc i) n) else 0)"

function find_offset :: "nat \<Rightarrow> nat \<Rightarrow> bool \<Rightarrow> partition \<Rightarrow> nat \<times> partition" where
  "find_offset number_of_elements i has_restarted_from_zero p =
     (if free_run (allocated_elements_to_nodes p) i number_of_elements \<ge> number_of_elements
      then (i, p)
      else if i + free_run (allocated_elements_to_nodes p) i number_of_elements + 1 \<ge> NoE p
      then (if \<not> has_restarted_from_zero
            then find_offset number_of_elements 0 True p
            else if NoE p < 1
            then find_offset number_of_elements
                   (i + free_run (allocated_elements_to_nodes p) i number_of_elements + 1) True
                   (grow_number_of_elements (max (number_of_elements + 1) (NoE p div 2)) p)
            else (NoE p,
                  grow_number_of_elements (max (number_of_elements + 1) (NoE p div 2)) p))
      else find_offset number_of_elements
             (i + free_run (allocated_elements_to_nodes p) i number_of_elements + 1)
             has_restarted_from_zero p)"
  by pat_completeness auto
termination
  by (relation "measures [\<lambda>(n, i, r, p). if r then 0 else 1,
                          \<lambda>(n, i, r, p). if NoE p = 0 then 1 else 0,
                          \<lambda>(n, i, r, p). NoE p - i]")
     (auto simp add: grow_number_of_elements_def Let_def)

section \<open>Creating and deleting nodes\<close>

text \<open>
  The type-specific part of create_node. A Pipe gets its seven node function selectors, the
  activator elements of its nodespace, and the expectation and wait defaults of its type; an
  LSTM its five selectors and the sampling activator; an Activator is registered with its
  nodespace when it names a type.
\<close>

definition truncate :: "real \<Rightarrow> int" where
  "truncate x = (if x \<ge> 0 then \<lfloor>x\<rfloor> else \<lceil>x\<rceil>)"

definition truthy :: "real option \<Rightarrow> bool" where
  "truthy v = (case v of None \<Rightarrow> False | Some x \<Rightarrow> x \<noteq> 0)"

definition create_pipe :: "nodenet \<Rightarrow> nat \<Rightarrow> nat \<Rightarrow> partition \<Rightarrow> error + partition" where
  "create_pipe net nodespace_id offset p =
     (let p = set_has_pipes True p in
      if offset + EXP \<ge> length (n_function_selector p)
         \<or> offset + EXP \<ge> length (allocated_elements_to_activators p)
         \<or> nodespace_id \<ge> length (allocated_nodespaces_por_activators p)
         \<or> nodespace_id \<ge> length (allocated_nodespaces_ret_activators p)
         \<or> nodespace_id \<ge> length (allocated_nodespaces_sub_activators p)
         \<or> nodespace_id \<ge> length (allocated_nodespaces_sur_activators p)
         \<or> nodespace_id \<ge> length (allocated_nodespaces_cat_activators p)
         \<or> nodespace_id \<ge> length (allocated_nodespaces_exp_activators p)
         \<or> allocated_nodespaces_por_activators p ! nodespace_id \<ge> length (allocated_node_offsets p)
         \<or> allocated_nodespaces_ret_activators p ! nodespace_id \<ge> length (allocated_node_offsets p)
         \<or> allocated_nodespaces_sub_activators p ! nodespace_id \<ge> length (allocated_node_offsets p)
         \<or> allocated_nodespaces_sur_activators p ! nodespace_id \<ge> length (allocated_node_offsets p)
         \<or> allocated_nodespaces_cat_activators p ! nodespace_id \<ge> length (allocated_node_offsets p)
         \<or> allocated_nodespaces_exp_activators p ! nodespace_id \<ge> length (allocated_node_offsets p)
         \<or> offset + SUR \<ge> length (g_expect p) \<or> offset + SUR \<ge> length (g_wait p)
      then Inl IndexError
      else
        (let offs = allocated_node_offsets p;
             p = p\<lparr> n_function_selector :=
                        (n_function_selector p)
                          [offset + GEN := NFPG_PIPE_GEN, offset + POR := NFPG_PIPE_POR,
                           offset + RET := NFPG_PIPE_RET, offset + SUB := NFPG_PIPE_SUB,
                           offset + SUR := NFPG_PIPE_SUR, offset + CAT := NFPG_PIPE_CAT,
                           offset + EXP := NFPG_PIPE_EXP],
                      allocated_elements_to_activators :=
                        (allocated_elements_to_activators p)
                          [offset + POR := offs ! (allocated_nodespaces_por_activators p ! nodespace_id),
                           offset + RET := offs ! (allocated_nodespaces_ret_activators p ! nodespace_id),
                           offset + SUB := offs ! (allocated_nodespaces_sub_activators p ! nodespace_id),
                           offset + SUR := offs ! (allocated_nodespaces_sur_activators p ! nodespace_id),
                           offset + CAT := offs ! (allocated_nodespaces_cat_activators p ! nodespace_id),
                           offset + EXP := offs ! (allocated_nodespaces_exp_activators p ! nodespace_id)] \<rparr>;
             p = (if truthy (expectation_default net ''Pipe'')
                  then p\<lparr> g_expect := (g_expect p)
                              [offset + GEN := the (expectation_default net ''Pipe''),
                               offset + SUR := the (expectation_default net ''Pipe''),
                               offset + POR := the (expectation_default net ''Pipe'')] \<rparr>
                  else p);
             p = (if truthy (wait_default net ''Pipe'')
                  then p\<lparr> g_wait := (g_wait p)
                              [offset + SUR := truncate (min (the (wait_default net ''Pipe'')) 128),
                               offset + POR := truncate (min (the (wait_default net ''Pipe'')) 128)] \<rparr>
                  else p)
         in Inr p))"

definition create_lstm :: "nat \<Rightarrow> nat \<Rightarrow> partition \<Rightarrow> error + partition" where
  "create_lstm nodespace_id offset p =
     (let p = set_has_lstms True p in
      if offset + GFG \<ge> length (n_function_selector p)
         \<or> offset + GFG \<ge> length (allocated_elements_to_activators p)
         \<or> nodespace_id \<ge> length (allocated_nodespaces_sampling_activators p)
         \<or> allocated_nodespaces_sampling_activators p ! nodespace_id
              \<ge> length (allocated_node_offsets p)
      then Inl IndexError
      else
        Inr (p\<lparr> n_function_selector :=
                   (n_function_selector p)
                     [offset + GEN := NFPG_LSTM_GEN, offset + POR := NFPG_LSTM_POR,
                      offset + GIN := NFPG_LSTM_GIN, offset + GOU := NFPG_LSTM_GOU,
                      offset + GFG := NFPG_LSTM_GFG],
                 allocated_elements_to_activators :=
                   set_all (allocated_elements_to_activators p)
                     [offset + GEN, offset + POR, offset + GIN, offset + GOU, offset + GFG]
                     (allocated_node_offsets p
                        ! (allocated_nodespaces_sampling_activators p ! nodespace_id)) \<rparr>))"

definition create_activator ::
  "nat \<Rightarrow> nat \<Rightarrow> string option \<Rightarrow> partition \<Rightarrow> error + partition" where
  "create_activator nodespace_id id0 activator_type p =
     (let p = set_has_directional_activators True p in
      case activator_type of
        None \<Rightarrow> Inr p
      | Some ty \<Rightarrow>
          if length ty > 0
          then (if ty \<noteq> ''sampling''
                then set_nodespace_gatetype_activator nodespace_id ty id0 p
                else set_nodespace_sampling_activator nodespace_id id0 p)
          else Inr p)"

text \<open>
  create_node: find or take the id, find the offset, enter the node into the allocation
  vectors, run the type-specific part, apply the gate parameter defaults of the type, the
  given gate parameters and gate functions (each for the gates the type has), and set the
  node's activations to zero. \<open>id_arg\<close> is the optional id, \<open>activator_type\<close> the "type"
  entry of the parameters. The instance objects kept for native modules and comments are
  not part of the model.
\<close>

definition create_node ::
  "nodenet \<Rightarrow> string \<Rightarrow> nat \<Rightarrow> nat option \<Rightarrow> string option
     \<Rightarrow> (string \<times> string \<times> real) list \<Rightarrow> (string \<times> string) list
     \<Rightarrow> partition \<Rightarrow> error + nat \<times> partition" where
  "create_node net nodetype nodespace_id id_arg activator_type gate_parameters gate_functions p0 =
     (let (id0, p1) = (case id_arg of None \<Rightarrow> find_free_node_id p0
                                   | Some i \<Rightarrow> use_given_node_id i p0);
          ty = get_numerical_node_type net nodetype;
          number_of_elements = get_elements_per_type net ty;
          (offset, p2) = find_offset number_of_elements (last_allocated_offset p1 + 1) False p1
      in if id0 \<ge> length (allocated_nodes p2) \<or> id0 \<ge> length (nodes_last_changed p2)
            \<or> id0 \<ge> length (allocated_node_parents p2)
            \<or> id0 \<ge> length (allocated_node_offsets p2)
            \<or> (number_of_elements > 0
                 \<and> offset + number_of_elements > length (allocated_elements_to_nodes p2))
         then Inl IndexError
         else
           (let p3 = p2\<lparr> last_allocated_node := int id0,
                          last_allocated_offset := offset,
                          allocated_nodes := (allocated_nodes p2)[id0 := ty],
                          nodes_last_changed := (nodes_last_changed p2)[id0 := current_step net],
                          allocated_node_parents :=
                            (allocated_node_parents p2)[id0 := nodespace_id],
                          allocated_node_offsets := (allocated_node_offsets p2)[id0 := offset],
                          nodespaces_contents_last_changed :=
                            (if nodespace_id < length (nodespaces_contents_last_changed p2)
                             then (nodespaces_contents_last_changed p2)
                                    [nodespace_id := current_step net]
                             else nodespaces_contents_last_changed p2),
                          allocated_elements_to_nodes :=
                            set_range (allocated_elements_to_nodes p2) offset
                              number_of_elements id0 \<rparr>
            in and_then
                 (if nodetype = ''Pipe'' then create_pipe net nodespace_id offset p3
                  else if nodetype = ''LSTM'' then create_lstm nodespace_id offset p3
                  else if nodetype = ''Activator''
                  then create_activator nodespace_id id0 activator_type p3
                  else Inr p3)
              (\<lambda>p4. and_then
                 (fold_err (\<lambda>(gate, parameter, val). set_node_gate_parameter net id0 gate parameter val)
                    (filter (\<lambda>(gate, parameter, val). gate \<in> set (gatetypes net nodetype))
                       (gate_defaults net nodetype)) p4)
              (\<lambda>p5. and_then
                 (fold_err (\<lambda>(gate, parameter, val). set_node_gate_parameter net id0 gate parameter val)
                    (filter (\<lambda>(gate, parameter, val). gate \<in> set (gatetypes net nodetype))
                       gate_parameters) p5)
              (\<lambda>p6. and_then
                 (fold_err (\<lambda>(gate, gate_function). set_node_gatefunction_name net id0 gate gate_function)
                    (filter (\<lambda>(gate, gate_function). gate \<in> set (gatetypes net nodetype))
                       gate_functions) p6)
              (\<lambda>p7. if number_of_elements > 0 \<and> offset + number_of_elements > length (a p7)
                    then Inl IndexError
                    else Inr (id0, p7\<lparr> a := set_range (a p7) offset number_of_elements 0 \<rparr>)))))))"

text \<open>
  unlink_node_completely sets to zero every weight in the rows and in the columns of the
  node's elements (the source selects the non-zero entries of these rows and columns and
  assigns zero to them) and stamps the node, its link partners and their nodespaces as
  changed.
\<close>

definition zero_rows_and_columns :: "real list list \<Rightarrow> nat \<Rightarrow> nat \<Rightarrow> real list list" where
  "zero_rows_and_columns m offset n =
     map (\<lambda>(r, row). map (\<lambda>(c, x). if (offset \<le> r \<and> r < offset + n)
                                        \<or> (offset \<le> c \<and> c < offset + n) then 0 else x)
                          (zip [0..<length row] row))
         (zip [0..<length m] m)"

definition unlink_node_completely :: "nodenet \<Rightarrow> nat \<Rightarrow> partition \<Rightarrow> partition" where
  "unlink_node_completely net node_id p =
     (let ty = allocated_nodes p ! node_id;
          offset = allocated_node_offsets p ! node_id;
          number_of_elements = get_elements_per_type net ty;
          rows = filter (\<lambda>r. r < length (w p)) [offset..<offset + number_of_elements];
          connecting_elements =
            concat (map (\<lambda>r. filter (\<lambda>c. w p ! r ! c \<noteq> 0) [0..<length (w p ! r)]) rows);
          connected_elements =
            filter (\<lambda>r. \<exists>c \<in> set [offset..<offset + number_of_elements].
                           c < length (w p ! r) \<and> w p ! r ! c \<noteq> 0) [0..<length (w p)];
          connecting_nodes = map (\<lambda>e. allocated_elements_to_nodes p ! e) connecting_elements;
          connected_nodes = map (\<lambda>e. allocated_elements_to_nodes p ! e) connected_elements;
          step = current_step net
      in p\<lparr> w := zero_rows_and_columns (w p) offset number_of_elements,
            nodes_last_changed :=
              set_all (set_all ((nodes_last_changed p)[node_id := step]) connected_nodes step)
                connecting_nodes step,
            nodespaces_contents_last_changed :=
              set_all
                (set_all ((nodespaces_contents_last_changed p)
                            [allocated_node_parents p ! node_id := step])
                   (map (\<lambda>n. allocated_node_parents p ! n) connected_nodes) step)
                (map (\<lambda>n. allocated_node_parents p ! n) connecting_nodes) step \<rparr>)"

text \<open>
  delete_node: unlink the node, forget it in the allocation vectors, reset the gate function
  and node function selectors of its elements, leave its id minus one as the hint for the
  next allocation, and remove it as an activator. The sensor and actuator index arrays and
  the instance objects are not part of the model.
\<close>

definition delete_node :: "nodenet \<Rightarrow> nat \<Rightarrow> partition \<Rightarrow> error + partition" where
  "delete_node net node_id p0 =
     (if node_id \<ge> length (allocated_nodes p0) \<or> node_id \<ge> length (allocated_node_offsets p0)
         \<or> node_id \<ge> length (allocated_node_parents p0)
      then Inl IndexError
      else
        (let ty = allocated_nodes p0 ! node_id;
             offset = allocated_node_offsets p0 ! node_id;
             parent = allocated_node_parents p0 ! node_id;
             number_of_elements = get_elements_per_type net ty;
             p1 = unlink_node_completely net node_id p0
         in if parent \<ge> length (nodespaces_contents_last_changed p1)
               \<or> (number_of_elements > 0
                    \<and> (offset + number_of_elements > length (allocated_elements_to_nodes p1)
                        \<or> offset + number_of_elements > length (g_function_selector p1)
                        \<or> ((ty = PIPE \<or> ty = LSTM)
                            \<and> offset + number_of_elements > length (n_function_selector p1))))
               \<or> parent \<ge> NoNS p1
            then Inl IndexError
            else
              (let p2 = p1\<lparr> nodespaces_contents_last_changed :=
                               (nodespaces_contents_last_changed p1)[parent := current_step net],
                             allocated_nodes := (allocated_nodes p1)[node_id := 0],
                             allocated_node_offsets := (allocated_node_offsets p1)[node_id := 0],
                             allocated_node_parents := (allocated_node_parents p1)[node_id := 0],
                             allocated_elements_to_nodes :=
                               map (\<lambda>x. if x = node_id then 0 else x)
                                 (set_range (allocated_elements_to_nodes p1) offset
                                    number_of_elements 0),
                             g_function_selector :=
                               set_range (g_function_selector p1) offset number_of_elements 0,
                             n_function_selector :=
                               (if ty = PIPE \<or> ty = LSTM
                                then set_range (n_function_selector p1) offset
                                       number_of_elements NFPG_PIPE_NON
                                else n_function_selector p1),
                             last_allocated_node := int node_id - 1,
                             allocated_elements_to_activators :=
                               map (\<lambda>x. if x = offset then 0 else x)
                                 (allocated_elements_to_activators p1) \<rparr>;
                   p3 = (if allocated_nodespaces_por_activators p2 ! parent = node_id then
                           p2\<lparr> allocated_nodespaces_por_activators :=
                                 (allocated_nodespaces_por_activators p2)[parent := 0] \<rparr>
                         else if allocated_nodespaces_ret_activators p2 ! parent = node_id then
                           p2\<lparr> allocated_nodespaces_ret_activators :=
                                 (allocated_nodespaces_ret_activators p2)[parent := 0] \<rparr>
                         else if allocated_nodespaces_sub_activators p2 ! parent = node_id then
                           p2\<lparr> allocated_nodespaces_sub_activators :=
                                 (allocated_nodespaces_sub_activators p2)[parent := 0] \<rparr>
                         else if allocated_nodespaces_sur_activators p2 ! parent = node_id then
                           p2\<lparr> allocated_nodespaces_sur_activators :=
                                 (allocated_nodespaces_sur_activators p2)[parent := 0] \<rparr>
                         else if allocated_nodespaces_cat_activators p2 ! parent = node_id then
                           p2\<lparr> allocated_nodespaces_cat_activators :=
                                 (allocated_nodespaces_cat_activators p2)[parent := 0] \<rparr>
                         else if allocated_nodespaces_exp_activators p2 ! parent = node_id then
                           p2\<lparr> allocated_nodespaces_exp_activators :=
                                 (allocated_nodespaces_exp_activators p2)[parent := 0] \<rparr>
                         else p2);
                   p4 = (if allocated_nodespaces_sampling_activators p3 ! parent = node_id then
                           p3\<lparr> allocated_nodespaces_sampling_activators :=
                                 (allocated_nodespaces_sampling_activators p3)[parent := 0] \<rparr>
                         else p3)
               in Inr p4)))"

section \<open>Creating and deleting nodespaces\<close>

text \<open>
  create_nodespace searches an id like create_node does, with the nodespace hint and with
  growth by half the capacity or by 1; with an id given nothing grows.
\<close>

definition find_free_nodespace_id :: "partition \<Rightarrow> nat \<times> partition" where
  "find_free_nodespace_id p =
     (let id0 = (case find (\<lambda>i. allocated_nodespaces p ! i = 0)
                           [last_allocated_nodespace p + 1..<NoNS p]
                 of Some i \<Rightarrow> i | None \<Rightarrow> 0);
          id0 = (if id0 < 1
                 then (case find (\<lambda>i. allocated_nodespaces p ! i = 0)
                                 [0..<last_allocated_nodespace p - 1]
                       of Some i \<Rightarrow> i | None \<Rightarrow> id0)
                 else id0)
      in if id0 < 1
         then (NoNS p,
               grow_number_of_nodespaces (if NoNS p div 2 = 0 then 1 else NoNS p div 2) p)
         else (id0, p))"

definition create_nodespace ::
  "nodenet \<Rightarrow> nat \<Rightarrow> nat option \<Rightarrow> partition \<Rightarrow> error + nat \<times> partition" where
  "create_nodespace net parent_id id_arg p0 =
     (let (id0, p1) = (case id_arg of None \<Rightarrow> find_free_nodespace_id p0
                                   | Some i \<Rightarrow> (i, p0))
      in if id0 \<ge> length (allocated_nodespaces p1) \<or> id0 \<ge> length (nodespaces_last_changed p1)
            \<or> parent_id \<ge> length (nodespaces_contents_last_changed p1)
         then Inl IndexError
         else Inr (id0,
                   p1\<lparr> last_allocated_nodespace := id0,
                        allocated_nodespaces := (allocated_nodespaces p1)[id0 := parent_id],
                        nodespaces_last_changed :=
                          (nodespaces_last_changed p1)[id0 := current_step net],
                        nodespaces_contents_last_changed :=
                          (nodespaces_contents_last_changed p1)
                            [parent_id := current_step net] \<rparr>))"

text \<open>
  Modelled from the spec: delete_nodespace deletes the child nodespaces and the member nodes
  through the nodenet's delete_nodespace and delete_node, which are not among the sources;
  by the spec the deletion is recursive over child nodespaces and member nodes, so they are
  taken to delete the nodespace or node in this partition. The first argument bounds the
  depth of the recursion, as the interpreter does. The partition's own part frees the
  nodespace's id, leaves it as the allocation hint and stamps the nodespace that the freed
  entry names.
\<close>

fun delete_nodespace :: "nat \<Rightarrow> nodenet \<Rightarrow> nat \<Rightarrow> partition \<Rightarrow> error + partition" where
  "delete_nodespace 0 net nodespace_id p = Inl RecursionError"
| "delete_nodespace (Suc depth) net nodespace_id p =
     and_then
       (fold_err (\<lambda>child_id q. delete_nodespace depth net child_id q)
          (where_eq (allocated_nodespaces p) nodespace_id) p)
       (\<lambda>p1. and_then
          (fold_err (\<lambda>node_id q. delete_node net node_id q)
             (where_eq (allocated_node_parents p1) nodespace_id) p1)
          (\<lambda>p2. if nodespace_id \<ge> length (allocated_nodespaces p2)
                     \<or> 0 \<ge> length (nodespaces_contents_last_changed p2)
                  then Inl IndexError
                  else Inr (p2\<lparr> allocated_nodespaces :=
                                   (allocated_nodespaces p2)[nodespace_id := 0],
                                 last_allocated_nodespace := nodespace_id,
                                 nodespaces_contents_last_changed :=
                                   (nodespaces_contents_last_changed p2)
                                     [(allocated_nodespaces p2)[nodespace_id := 0] ! nodespace_id
                                        := current_step net] \<rparr>)))"

section \<open>Links (set_link_weight)\<close>

text \<open>
  A call of the editing or bulk API either returns a value and a state, or raises an
  exception and leaves a state behind.
\<close>

datatype 'a outcome = Raised error partition | Returned 'a partition

text \<open>
  set_link_weight translates the gate and slot names, refuses an index greater than the
  type's gate or slot count, writes the weight at row (target offset + slot) and column
  (source offset + gate), stamps both nodes and their nodespaces, and, for the por or ret
  slot of a Pipe, sets the seven linked flags of the target to 0 when the weight is 0 and to
  1 otherwise.
\<close>

definition set_link_weight ::
  "nodenet \<Rightarrow> nat \<Rightarrow> string \<Rightarrow> nat \<Rightarrow> string \<Rightarrow> real \<Rightarrow> partition \<Rightarrow> unit outcome" where
  "set_link_weight net source_node_id gate_type target_node_id slot_type weight p =
     (if source_node_id \<ge> length (allocated_nodes p) \<or> target_node_id \<ge> length (allocated_nodes p)
      then Raised IndexError p
      else
       (case get_numerical_gate_type gate_type
               (native_nodetype net (allocated_nodes p ! source_node_id)) of
          Inl e \<Rightarrow> Raised e p
        | Inr ngt \<Rightarrow>
       (case get_numerical_slot_type slot_type
               (if allocated_nodes p ! target_node_id > MAX_STD_NODETYPE
                then Some (native_slottypes net (allocated_nodes p ! target_node_id))
                else None) of
          Inl e \<Rightarrow> Raised e p
        | Inr nst \<Rightarrow>
          if ngt > get_gates_per_type net (allocated_nodes p ! source_node_id)
          then Raised ValueError p
          else if nst > get_slots_per_type net (allocated_nodes p ! target_node_id)
          then Raised ValueError p
          else if source_node_id \<ge> length (allocated_node_offsets p)
                  \<or> target_node_id \<ge> length (allocated_node_offsets p)
          then Raised IndexError p
          else
            (let x = allocated_node_offsets p ! target_node_id + nst;
                 y = allocated_node_offsets p ! source_node_id + ngt
             in if x \<ge> length (w p) \<or> y \<ge> length (w p ! x) then Raised IndexError p
                else
                 (let p1 = p\<lparr> w := (w p)[x := (w p ! x)[y := weight]] \<rparr> in
                  if source_node_id \<ge> length (nodes_last_changed p1)
                     \<or> target_node_id \<ge> length (nodes_last_changed p1)
                     \<or> source_node_id \<ge> length (allocated_node_parents p1)
                     \<or> target_node_id \<ge> length (allocated_node_parents p1)
                     \<or> allocated_node_parents p1 ! source_node_id
                          \<ge> length (nodespaces_contents_last_changed p1)
                     \<or> allocated_node_parents p1 ! target_node_id
                          \<ge> length (nodespaces_contents_last_changed p1)
                  then Raised IndexError p1
                  else
                   (let p2 = p1\<lparr> nodes_last_changed :=
                                     (nodes_last_changed p1)
                                       [source_node_id := current_step net,
                                        target_node_id := current_step net],
                                   nodespaces_contents_last_changed :=
                                     (nodespaces_contents_last_changed p1)
                                       [allocated_node_parents p1 ! source_node_id
                                          := current_step net,
                                        allocated_node_parents p1 ! target_node_id
                                          := current_step net] \<rparr>;
                        off = allocated_node_offsets p2 ! target_node_id;
                        is_pipe = (allocated_nodes p2 ! target_node_id = PIPE)
                    in if slot_type = ''por'' \<and> is_pipe
                          \<and> off + 7 > length (n_node_porlinked p2)
                       then Raised IndexError
                              (p2\<lparr> n_node_porlinked :=
                                     set_range (n_node_porlinked p2) off
                                       (length (n_node_porlinked p2) - off)
                                       (if weight = 0 then 0 else 1) \<rparr>)
                       else
                        (let p3 = (if slot_type = ''por'' \<and> is_pipe
                                   then p2\<lparr> n_node_porlinked :=
                                               set_range (n_node_porlinked p2) off 7
                                                 (if weight = 0 then 0 else 1) \<rparr>
                                   else p2)
                         in if slot_type = ''ret'' \<and> is_pipe
                               \<and> off + 7 > length (n_node_retlinked p3)
                            then Raised IndexError
                                   (p3\<lparr> n_node_retlinked :=
                                          set_range (n_node_retlinked p3) off
                                            (length (n_node_retlinked p3) - off)
                                            (if weight = 0 then 0 else 1) \<rparr>)
                            else Returned ()
                                   (if slot_type = ''ret'' \<and> is_pipe
                                    then p3\<lparr> n_node_retlinked :=
                                                set_range (n_node_retlinked p3) off 7
                                                  (if weight = 0 then 0 else 1) \<rparr>
                                    else p3))))))))"

section \<open>Groups and the bulk API\<close>

text \<open>
  \<open>lookup_group\<close> is the test the getters and setters make before they touch an array.
  \<open>take_at\<close> reads an array at an index array and \<open>put_at\<close> assigns an array of values
  at an index array: the value array is used as it is when it has the length of the index
  array, repeated when it has length 1, and refused otherwise, as the array library's
  broadcasting does; an index outside the array is refused before anything is written.
\<close>

definition lookup_group ::
  "partition \<Rightarrow> string \<Rightarrow> string \<Rightarrow> nat list option" where
  "lookup_group p nodespace_uid group_name =
     (case nodegroups p nodespace_uid of
        None \<Rightarrow> None
      | Some groups \<Rightarrow> groups group_name)"

definition take_at :: "'a list \<Rightarrow> nat list \<Rightarrow> error + 'a list" where
  "take_at xs idxs =
     (if list_all (\<lambda>i. i < length xs) idxs then Inr (map (\<lambda>i. xs ! i) idxs)
      else Inl IndexError)"

definition broadcast_to :: "nat \<Rightarrow> 'a list \<Rightarrow> 'a list option" where
  "broadcast_to n vs =
     (if length vs = n then Some vs
      else if length vs = 1 then Some (replicate n (hd vs))
      else None)"

definition put_at :: "'a list \<Rightarrow> nat list \<Rightarrow> 'a list \<Rightarrow> error + 'a list" where
  "put_at xs idxs vs =
     (case broadcast_to (length idxs) vs of
        None \<Rightarrow> Inl ValueError
      | Some vs' \<Rightarrow>
          if list_all (\<lambda>i. i < length xs) idxs
          then Inr (fold (\<lambda>(i, v) ys. ys[i := v]) (zip idxs vs') xs)
          else Inl IndexError)"


definition set_activations ::
  "string \<Rightarrow> string \<Rightarrow> real list \<Rightarrow> partition \<Rightarrow> unit outcome" where
  "set_activations nodespace_uid group_name new_activations p =
     (case lookup_group p nodespace_uid group_name of
        None \<Rightarrow> Raised ValueError p
      | Some idxs \<Rightarrow>
          (case put_at (a p) idxs new_activations of
             Inl e \<Rightarrow> Raised e p
           | Inr a' \<Rightarrow> Returned () (p\<lparr> a := a' \<rparr>)))"


definition set_thetas ::
  "string \<Rightarrow> string \<Rightarrow> real list \<Rightarrow> partition \<Rightarrow> unit outcome" where
  "set_thetas nodespace_uid group_name thetas p =
     (case lookup_group p nodespace_uid group_name of
        None \<Rightarrow> Raised ValueError p
      | Some idxs \<Rightarrow>
          (case put_at (g_theta p) idxs thetas of
             Inl e \<Rightarrow> Raised e p
           | Inr th' \<Rightarrow> Returned () (p\<lparr> g_theta := th' \<rparr>)))"

text \<open>
  The weights between two groups are the block of the matrix at the rows of the target
  group and the columns of the source group. Broadcasting a block of values to the shape of
  the index block works along each axis on its own.
\<close>

definition block_in_bounds :: "real list list \<Rightarrow> nat list \<Rightarrow> nat list \<Rightarrow> bool" where
  "block_in_bounds m rows cols \<longleftrightarrow>
     (rows = [] \<or> cols = []
      \<or> (list_all (\<lambda>r. r < length m) rows
          \<and> list_all (\<lambda>r. list_all (\<lambda>c. c < length (m ! r)) cols) rows))"


definition broadcast_block :: "nat \<Rightarrow> nat \<Rightarrow> real list list \<Rightarrow> real list list option" where
  "broadcast_block nrows ncols new_w =
     (if list_all (\<lambda>row. length row = ncols \<or> length row = 1) new_w
         \<and> (length new_w = nrows \<or> length new_w = 1)
         \<and> (\<forall>row \<in> set new_w. \<forall>row' \<in> set new_w. length row = length row')
      then Some (the (broadcast_to nrows (map (\<lambda>row. the (broadcast_to ncols row)) new_w)))
      else None)"

text \<open>
  The dense matrix is an array of the array library, which broadcasts the block. The sparse
  matrix takes a block whose shape without its axes of length 1 is the shape of the index
  block without its axes of length 1, read row by row into the shape of the index block, and
  broadcasts any other block.
\<close>

fun chop :: "nat \<Rightarrow> nat \<Rightarrow> 'a list \<Rightarrow> 'a list list" where
  "chop 0 ncols xs = []"
| "chop (Suc nrows) ncols xs = take ncols xs # chop nrows ncols (drop ncols xs)"

definition sparse_block :: "nat \<Rightarrow> nat \<Rightarrow> real list list \<Rightarrow> real list list option" where
  "sparse_block nrows ncols new_w =
     (if (\<forall>row \<in> set new_w. \<forall>row' \<in> set new_w. length row = length row')
         \<and> new_w \<noteq> []
         \<and> filter (\<lambda>n. n \<noteq> 1) [length new_w, length (hd new_w)]
             = filter (\<lambda>n. n \<noteq> 1) [nrows, ncols]
      then Some (chop nrows ncols (concat new_w))
      else broadcast_block nrows ncols new_w)"

definition assigned_block ::
  "bool \<Rightarrow> nat \<Rightarrow> nat \<Rightarrow> real list list \<Rightarrow> real list list option" where
  "assigned_block is_sparse nrows ncols new_w =
     (if is_sparse then sparse_block nrows ncols new_w
      else broadcast_block nrows ncols new_w)"

definition set_link_weights ::
  "nodenet \<Rightarrow> string \<Rightarrow> string \<Rightarrow> string \<Rightarrow> string \<Rightarrow> real list list \<Rightarrow> partition
     \<Rightarrow> unit outcome" where
  "set_link_weights net nodespace_from_uid group_from nodespace_to_uid group_to new_w p =
     (case lookup_group p nodespace_from_uid group_from of
        None \<Rightarrow> Raised KeyError p
      | Some grp_from \<Rightarrow>
          (case lookup_group p nodespace_to_uid group_to of
             None \<Rightarrow> Raised KeyError p
           | Some grp_to \<Rightarrow>
               (case assigned_block (sparse p) (length grp_to) (length grp_from) new_w of
                  None \<Rightarrow> Raised ValueError p
                | Some block \<Rightarrow>
                    if \<not> block_in_bounds (w p) grp_to grp_from then Raised IndexError p
                    else
                     (let p1 = p\<lparr> w := fold (\<lambda>(r, vs) m.
                                              m[r := fold (\<lambda>(c, v) row. row[c := v])
                                                       (zip grp_from vs) (m ! r)])
                                            (zip grp_to block) (w p) \<rparr>;
                          cstep = current_step net
                      in case take_at (allocated_elements_to_nodes p1) grp_from of
                           Inl e \<Rightarrow> Raised e p1
                         | Inr from_nodes \<Rightarrow>
                      (case take_at (allocated_elements_to_nodes p1) grp_to of
                           Inl e \<Rightarrow> Raised e p1
                         | Inr to_nodes \<Rightarrow>
                      (case take_at (allocated_node_parents p1) from_nodes of
                           Inl e \<Rightarrow> Raised e p1
                         | Inr from_parents \<Rightarrow>
                      (case take_at (allocated_node_parents p1) to_nodes of
                           Inl e \<Rightarrow> Raised e p1
                         | Inr to_parents \<Rightarrow>
                        if \<not> list_all (\<lambda>n. n < length (nodes_last_changed p1))
                                (from_nodes @ to_nodes)
                           \<or> \<not> list_all (\<lambda>n. n < length (nodespaces_contents_last_changed p1))
                                   (from_parents @ to_parents)
                        then Raised IndexError p1
                        else Returned ()
                          (p1\<lparr> nodes_last_changed :=
                                 set_all (set_all (nodes_last_changed p1) from_nodes cstep)
                                   to_nodes cstep,
                               nodespaces_contents_last_changed :=
                                 set_all (set_all (nodespaces_contents_last_changed p1)
                                            from_parents cstep) to_parents cstep,
                               por_ret_dirty := has_pipes p1 \<rparr>))))))))"

section \<open>The linked flags (rebuild_por_linked, rebuild_ret_linked)\<close>

text \<open>
  An index of the array library counts from the end when it is negative and is refused
  outside the array. \<open>put_shifted\<close> assigns the flags at the indices shifted by d.
  The por (ret) rows of the matrix are the rows of the elements whose node function selector
  is PIPE_POR (PIPE_RET); the flag of a row is 1 when the row has a non-zero weight. The
  flags are written to the seven elements of each such Pipe, into an array of zeros.
\<close>

definition py_index :: "nat \<Rightarrow> int \<Rightarrow> nat option" where
  "py_index n i =
     (if 0 \<le> i \<and> i < int n then Some (nat i)
      else if - int n \<le> i \<and> i < 0 then Some (nat (int n + i))
      else None)"

definition put_shifted :: "nat list \<Rightarrow> nat list \<Rightarrow> int \<Rightarrow> nat list \<Rightarrow> error + nat list" where
  "put_shifted arr idxs d flags =
     (if list_all (\<lambda>i. py_index (length arr) (int i + d) \<noteq> None) idxs
      then Inr (fold (\<lambda>(i, f) ys. ys[the (py_index (length arr) (int i + d)) := f])
                  (zip idxs flags) arr)
      else Inl IndexError)"

definition linkedflags :: "real list list \<Rightarrow> nat list \<Rightarrow> nat list" where
  "linkedflags m idxs = map (\<lambda>i. if \<exists>x \<in> set (m ! i). x \<noteq> 0 then 1 else 0) idxs"

definition rebuild_por_linked :: "partition \<Rightarrow> error + partition" where
  "rebuild_por_linked p =
     (let por_indices = where_eq (n_function_selector p) NFPG_PIPE_POR in
      if \<not> list_all (\<lambda>i. i < length (w p)) por_indices then Inl IndexError
      else
        (let flags = linkedflags (w p) por_indices in
         and_then (put_shifted (replicate (NoE p) 0) por_indices (- 1) flags) (\<lambda>arr.
         and_then (put_shifted arr por_indices 0 flags) (\<lambda>arr.
         and_then (put_shifted arr por_indices 1 flags) (\<lambda>arr.
         and_then (put_shifted arr por_indices 2 flags) (\<lambda>arr.
         and_then (put_shifted arr por_indices 3 flags) (\<lambda>arr.
         and_then (put_shifted arr por_indices 4 flags) (\<lambda>arr.
         and_then (put_shifted arr por_indices 5 flags) (\<lambda>arr.
         Inr (p\<lparr> n_node_porlinked := arr \<rparr>))))))))))"

definition rebuild_ret_linked :: "partition \<Rightarrow> error + partition" where
  "rebuild_ret_linked p =
     (let ret_indices = where_eq (n_function_selector p) NFPG_PIPE_RET in
      if \<not> list_all (\<lambda>i. i < length (w p)) ret_indices then Inl IndexError
      else
        (let flags = linkedflags (w p) ret_indices in
         and_then (put_shifted (replicate (NoE p) 0) ret_indices (- 2) flags) (\<lambda>arr.
         and_then (put_shifted arr ret_indices (- 1) flags) (\<lambda>arr.
         and_then (put_shifted arr ret_indices 0 flags) (\<lambda>arr.
         and_then (put_shifted arr ret_indices 1 flags) (\<lambda>arr.
         and_then (put_shifted arr ret_indices 2 flags) (\<lambda>arr.
         and_then (put_shifted arr ret_indices 3 flags) (\<lambda>arr.
         and_then (put_shifted arr ret_indices 4 flags) (\<lambda>arr.
         Inr (p\<lparr> n_node_retlinked := arr \<rparr>))))))))))"

section \<open>The non-linear step of a partition (calculate)\<close>

text \<open>
  __calculate_g_factors writes 1 to the activation of element 0 and reads every element's
  gate factor from the activation of its activator element.
\<close>

definition calculate_g_factors :: "partition \<Rightarrow> error + partition" where
  "calculate_g_factors p =
     (if a p = [] then Inl IndexError
      else (case take_at ((a p)[0 := 1]) (allocated_elements_to_activators p) of
              Inl e \<Rightarrow> Inl e
            | Inr gf \<Rightarrow> Inr (p\<lparr> a := (a p)[0 := 1], g_factor := gf \<rparr>)))"

text \<open>
  The steps before the node calculation: the linked flags are rebuilt when dirty, the
  shifted views are taken from the activations and thetas as they are then, and the gate
  factors are computed when activators are in use. The shifted views are read by the node
  calculation only when Pipes or LSTMs are in use, which is when the source rebuilds them.
  Recompiling on new usages changes no array. The node functions of native modules run
  after the node calculation and are not part of the model.
\<close>

definition prepare_calculate :: "partition \<Rightarrow> error + partition" where
  "prepare_calculate p0 =
     (let p1 = p0\<lparr> has_new_usages := False \<rparr> in
      and_then
        (if por_ret_dirty p1
         then and_then (rebuild_por_linked p1) (\<lambda>q.
              and_then (rebuild_ret_linked q) (\<lambda>q. Inr (q\<lparr> por_ret_dirty := False \<rparr>)))
         else Inr p1)
        (\<lambda>p2. if has_directional_activators p2 \<or> has_sampling_activators p2
               then calculate_g_factors p2 else Inr p2))"

definition calculate :: "nodenet \<Rightarrow> partition \<Rightarrow> error + partition" where
  "calculate net p0 =
     (let p1 = p0\<lparr> t := current_step net \<rparr> in
      and_then (prepare_calculate p1)
        (\<lambda>p2. calculate_nodes (a_shifted p1) (g_theta_shifted p1) p2))"

section \<open>Inter-partition links\<close>

text \<open>
  set_inlink_weights merges new links into the block kept for a source partition: the
  element arrays become the sorted unions of the old and new elements, the weights are laid
  out anew with the old weights at their new positions and the new weights over them. The
  change stamps it sets in both partitions are left out here.
\<close>

definition union1d :: "nat list \<Rightarrow> nat list \<Rightarrow> nat list" where
  "union1d xs ys = sort (remdups (xs @ ys))"

definition searchsorted :: "nat list \<Rightarrow> nat \<Rightarrow> nat" where
  "searchsorted xs v = length (takeWhile (\<lambda>x. x < v) xs)"

definition put_block ::
  "real list list \<Rightarrow> nat list \<Rightarrow> nat list \<Rightarrow> real list list \<Rightarrow> real list list" where
  "put_block m rows cols block =
     fold (\<lambda>(r, vs) m. m[r := fold (\<lambda>(c, v) row. row[c := v]) (zip cols vs) (m ! r)])
       (zip rows block) m"

definition set_inlink_weights ::
  "nat \<Rightarrow> nat list \<Rightarrow> nat list \<Rightarrow> real list list \<Rightarrow> partition \<Rightarrow> error + partition" where
  "set_inlink_weights partition_from_spid new_from_elements new_to_elements new_weights p =
     (let (old_from_elements, old_to_elements, old_weights) =
            (case map_of (inlinks p) partition_from_spid of
               Some blk \<Rightarrow> blk
             | None \<Rightarrow> ([], [], []));
          from_elements = union1d old_from_elements new_from_elements;
          to_elements = union1d old_to_elements new_to_elements
      in case broadcast_block (length new_to_elements) (length new_from_elements) new_weights of
           None \<Rightarrow> Inl ValueError
         | Some new_block \<Rightarrow>
             (let weights = replicate (length to_elements) (replicate (length from_elements) 0);
                  weights = put_block weights
                              (map (searchsorted to_elements) old_to_elements)
                              (map (searchsorted from_elements) old_from_elements) old_weights;
                  weights = put_block weights
                              (map (searchsorted to_elements) new_to_elements)
                              (map (searchsorted from_elements) new_from_elements) new_block
              in Inr (p\<lparr> inlinks :=
                          AList.update partition_from_spid
                            (from_elements, to_elements, weights) (inlinks p) \<rparr>)))"

text \<open>
  The compiled function of a block (get_compiled_propagate_inlinks) adds, to the incoming
  activations of the target elements, the block's weights times the activations the source
  partition has at the source elements when the function runs.
\<close>

definition propagate_inlinks ::
  "partition \<Rightarrow> nat list \<Rightarrow> nat list \<Rightarrow> real list list \<Rightarrow> partition \<Rightarrow> error + partition" where
  "propagate_inlinks from_partition from_elements to_elements weights p =
     (case take_at (a from_partition) from_elements of
        Inl e \<Rightarrow> Inl e
      | Inr vs \<Rightarrow>
          if length weights \<noteq> length to_elements
             \<or> \<not> list_all (\<lambda>row. length row = length vs) weights
          then Inl ValueError
          else if \<not> list_all (\<lambda>i. i < length (a_in p)) to_elements then Inl IndexError
          else Inr (p\<lparr> a_in := fold (\<lambda>(i, v) ys. ys[i := ys ! i + v])
                                  (zip to_elements (dot weights vs)) (a_in p) \<rparr>))"

section \<open>The scheduler's tick\<close>

text \<open>
  Modelled from the spec: the tick of the scheduler, which belongs to the nodenet and is not
  among the sources (the nodenet class of the sources leaves step empty). By the spec's
  per-tick order every partition propagates first; then every link block adds its
  contribution to the incoming activations of its target partition, reading the source
  partition's activations as the propagation of this tick left them; then every partition
  runs its non-linear step. The partitions of a net are a list, a block names its source
  partition by its pid.
\<close>

fun map_err :: "('a \<Rightarrow> error + 'b) \<Rightarrow> 'a list \<Rightarrow> error + 'b list" where
  "map_err f [] = Inr []"
| "map_err f (x # xs) =
     (case f x of
        Inl e \<Rightarrow> Inl e
      | Inr y \<Rightarrow> (case map_err f xs of Inl e \<Rightarrow> Inl e | Inr ys \<Rightarrow> Inr (y # ys)))"

definition add_inlinks :: "partition list \<Rightarrow> partition \<Rightarrow> error + partition" where
  "add_inlinks propagated p =
     fold_err
       (\<lambda>(spid, from_elements, to_elements, weights) q.
          case find (\<lambda>src. pid src = spid) propagated of
            None \<Rightarrow> Inl KeyError
          | Some src \<Rightarrow> propagate_inlinks src from_elements to_elements weights q)
       (inlinks p) p"

definition step :: "nodenet \<Rightarrow> partition list \<Rightarrow> error + partition list" where
  "step net partitions =
     and_then (map_err propagate partitions) (\<lambda>propagated.
     and_then (map_err (add_inlinks propagated) propagated) (\<lambda>linked.
     map_err (calculate net) linked))"

text \<open>The tick of a partition on its own, and N ticks with the step counter running.\<close>

definition tick :: "nodenet \<Rightarrow> partition \<Rightarrow> error + partition" where
  "tick net p = and_then (propagate p) (calculate net)"

fun ticks :: "nat \<Rightarrow> nodenet \<Rightarrow> partition \<Rightarrow> error + partition" where
  "ticks 0 net p = Inr p"
| "ticks (Suc n) net p =
     and_then (tick net p) (ticks n (net\<lparr> current_step := current_step net + 1 \<rparr>))"

section \<open>A nodenet without native modules\<close>

text \<open>
  The nodenet used where a concrete one is needed: at the given step, with no native
  modules, no parameter or gate defaults, and the standard gate names for every type.
\<close>

definition plain_nodenet :: "int \<Rightarrow> nodenet" where
  "plain_nodenet now =
     \<lparr> current_step = now,
       native_type = (\<lambda>name. 10),
       native_elements = (\<lambda>ty. 0),
       native_gates = (\<lambda>ty. 0),
       native_slots = (\<lambda>ty. 0),
       native_gatetypes = (\<lambda>ty. []),
       native_slottypes = (\<lambda>ty. []),
       expectation_default = (\<lambda>name. None),
       wait_default = (\<lambda>name. None),
       gate_defaults = (\<lambda>name. []),
       gatetypes = (\<lambda>name. [''gen'', ''por'', ''ret'', ''sub'', ''sur'', ''cat'', ''exp'']) \<rparr>"

section \<open>Grouping nodes\<close>

text \<open>
  group_nodes_by_ids stores, under the nodespace and the group name, the elements of the
  given gate of the given nodes. \<open>parent_id\<close> is the numeric id that the nodespace's uid
  names (the translation belongs to theano_definitions). The dictionary of the nodespace is
  created before the test that can refuse the nodes.
\<close>

definition group_nodes_by_ids ::
  "string \<Rightarrow> nat \<Rightarrow> nat list \<Rightarrow> string \<Rightarrow> string \<Rightarrow> partition \<Rightarrow> unit outcome" where
  "group_nodes_by_ids nodespace_uid parent_id ids group_name gatetype p0 =
     (let p1 = (if nodegroups p0 nodespace_uid = None
                then p0\<lparr> nodegroups := (nodegroups p0)(nodespace_uid \<mapsto> Map.empty) \<rparr>
                else p0)
      in case take_at (allocated_node_parents p1) ids of
           Inl e \<Rightarrow> Raised e p1
         | Inr parents \<Rightarrow>
             if \<exists>x \<in> set parents. x \<noteq> parent_id then Raised ValueError p1
             else
              (case get_numerical_gate_type gatetype None of
                 Inl e \<Rightarrow> Raised e p1
               | Inr gate \<Rightarrow>
                  (case take_at (allocated_node_offsets p1) ids of
                     Inl e \<Rightarrow> Raised e p1
                   | Inr offs \<Rightarrow>
                       Returned ()
                         (p1\<lparr> nodegroups :=
                                (nodegroups p1)(nodespace_uid \<mapsto>
                                  (the (nodegroups p1 nodespace_uid))
                                    (group_name \<mapsto> map (\<lambda>off. off + gate) offs)) \<rparr>))))"

section \<open>Sequences of operations\<close>

text \<open>
  The public operations of a partition as commands, and the state a sequence of them leads
  to. An operation of the editing or bulk API that raises leaves its state to the caller,
  who goes on; the other operations end the sequence when they raise.
\<close>

datatype command =
    Create_node nodenet string nat "nat option" "string option"
      "(string \<times> string \<times> real) list" "(string \<times> string) list"
  | Delete_node nodenet nat
  | Create_nodespace nodenet nat "nat option"
  | Delete_nodespace nat nodenet nat
  | Set_node_gate_parameter nodenet nat string string real
  | Set_node_gatefunction_name nodenet nat string string
  | Set_nodespace_gatetype_activator nat string nat
  | Set_nodespace_sampling_activator nat nat
  | Set_link_weight nodenet nat string nat string real
  | Group_nodes_by_ids string nat "nat list" string string
  | Set_activations string string "real list"
  | Set_thetas string string "real list"
  | Set_link_weights nodenet string string string string "real list list"
  | Set_inlink_weights nat "nat list" "nat list" "real list list"
  | Grow_number_of_nodes nat
  | Grow_number_of_elements nat
  | Grow_number_of_nodespaces nat
  | Propagate
  | Calculate nodenet

definition state_of :: "'a outcome \<Rightarrow> partition" where
  "state_of r = (case r of Raised e p \<Rightarrow> p | Returned x p \<Rightarrow> p)"

fun run_command :: "command \<Rightarrow> partition \<Rightarrow> error + partition" where
  "run_command (Create_node net nodetype nodespace_id id_arg activator_type gps gfs) p =
     (case create_node net nodetype nodespace_id id_arg activator_type gps gfs p of
        Inl e \<Rightarrow> Inl e | Inr (i, p') \<Rightarrow> Inr p')"
| "run_command (Delete_node net node_id) p = delete_node net node_id p"
| "run_command (Create_nodespace net parent_id id_arg) p =
     (case create_nodespace net parent_id id_arg p of
        Inl e \<Rightarrow> Inl e | Inr (i, p') \<Rightarrow> Inr p')"
| "run_command (Delete_nodespace depth net nodespace_id) p =
     delete_nodespace depth net nodespace_id p"
| "run_command (Set_node_gate_parameter net i gate_type parameter val) p =
     set_node_gate_parameter net i gate_type parameter val p"
| "run_command (Set_node_gatefunction_name net i gate_type name) p =
     set_node_gatefunction_name net i gate_type name p"
| "run_command (Set_nodespace_gatetype_activator nodespace_id gate_type activator_id) p =
     set_nodespace_gatetype_activator nodespace_id gate_type activator_id p"
| "run_command (Set_nodespace_sampling_activator nodespace_id activator_id) p =
     set_nodespace_sampling_activator nodespace_id activator_id p"
| "run_command (Set_link_weight net src gate_type tgt slot_type weight) p =
     Inr (state_of (set_link_weight net src gate_type tgt slot_type weight p))"
| "run_command (Group_nodes_by_ids nodespace_uid parent_id ids group_name gatetype) p =
     Inr (state_of (group_nodes_by_ids nodespace_uid parent_id ids group_name gatetype p))"
| "run_command (Set_activations nodespace_uid group_name vals) p =
     Inr (state_of (set_activations nodespace_uid group_name vals p))"
| "run_command (Set_thetas nodespace_uid group_name vals) p =
     Inr (state_of (set_thetas nodespace_uid group_name vals p))"
| "run_command (Set_link_weights net ns_from group_from ns_to group_to new_w) p =
     Inr (state_of (set_link_weights net ns_from group_from ns_to group_to new_w p))"
| "run_command (Set_inlink_weights spid from_elements to_elements weights) p =
     set_inlink_weights spid from_elements to_elements weights p"
| "run_command (Grow_number_of_nodes growby) p = Inr (grow_number_of_nodes growby p)"
| "run_command (Grow_number_of_elements growby) p = Inr (grow_number_of_elements growby p)"
| "run_command (Grow_number_of_nodespaces growby) p = Inr (grow_number_of_nodespaces growby p)"
| "run_command Propagate p = propagate p"
| "run_command (Calculate net) p = calculate net p"

fun run :: "command list \<Rightarrow> partition \<Rightarrow> error + partition" where
  "run [] p = Inr p"
| "run (c # cs) p = (case run_command c p of Inl e \<Rightarrow> Inl e | Inr p' \<Rightarrow> run cs p')"

text \<open>A command names the id 0 when it asks for the node or nodespace id 0 explicitly.\<close>

fun names_id_zero :: "command \<Rightarrow> bool" where
  "names_id_zero (Create_node net nodetype nodespace_id id_arg activator_type gps gfs) =
     (id_arg = Some 0)"
| "names_id_zero (Create_nodespace net parent_id id_arg) = (id_arg = Some 0)"
| "names_id_zero c = False"

section \<open>Example states\<close>

text \<open>
  A partition with a Pipe (node 1, elements 1 to 7) and a Register (node 2, element 8) in
  nodespace 1, as create_node leaves them, and no links yet.
\<close>

definition pipe_and_register :: partition where
  "pipe_and_register =
     (init 1 3 3 2)\<lparr> allocated_nodes := [0, PIPE, REGISTER],
                      allocated_node_offsets := [0, 1, 8],
                      allocated_node_parents := [0, 1, 1],
                      allocated_elements_to_nodes := [0, 1, 1, 1, 1, 1, 1, 1, 2],
                      n_function_selector := [0, 1, 2, 3, 4, 5, 6, 7, 0],
                      has_pipes := True, last_allocated_node := 2, last_allocated_offset := 8 \<rparr>"



text \<open>
  The two partitions of the cross-partition scenario: each holds one Register (node 1,
  element 1) in nodespace 1, as create_node leaves it. The source partition has pid 2 and
  the activation x at its Register; the target partition has pid 1 and one incoming block
  from partition 2 that links the source Register's gen gate to the target Register's gen
  slot with the given weight, as set_inlink_weights leaves it.
\<close>

definition link_source :: "real \<Rightarrow> partition" where
  "link_source x =
     (init 2 2 1 2)\<lparr> allocated_nodes := [0, REGISTER],
                      allocated_node_offsets := [0, 1],
                      allocated_node_parents := [0, 1],
                      allocated_elements_to_nodes := [0, 1],
                      last_allocated_node := 1, last_allocated_offset := 1,
                      a := [0, x] \<rparr>"

definition link_target :: "real \<Rightarrow> partition" where
  "link_target weight =
     (init 1 2 1 2)\<lparr> allocated_nodes := [0, REGISTER],
                      allocated_node_offsets := [0, 1],
                      allocated_node_parents := [0, 1],
                      allocated_elements_to_nodes := [0, 1],
                      last_allocated_node := 1, last_allocated_offset := 1,
                      inlinks := [(2, [1 + GEN], [1 + GEN], [[weight]])] \<rparr>"

text \<open>
  A partition of 21 elements with one Pipe (node 1, elements 1 to 7) in nodespace 1: gen
  0.15, por 1, ret 0, sub 1, sur 0.5, cat 0, exp 0, every countdown at 1 and every upper
  bound at 2.
\<close>

definition single_pipe :: partition where
  "single_pipe =
     (init 1 3 7 2)\<lparr> allocated_nodes := [0, PIPE, 0],
                      allocated_node_offsets := [0, 1, 0],
                      allocated_node_parents := [0, 1, 0],
                      allocated_elements_to_nodes :=
                        [0, 1, 1, 1, 1, 1, 1, 1, 0, 0, 0, 0, 0, 0, 0, 0, 0, 0, 0, 0, 0],
                      n_function_selector :=
                        [0, 1, 2, 3, 4, 5, 6, 7, 0, 0, 0, 0, 0, 0, 0, 0, 0, 0, 0, 0, 0],
                      has_pipes := True, last_allocated_node := 1, last_allocated_offset := 1,
                      a := [0, 3 / 20, 1, 0, 1, 1 / 2, 0, 0, 0, 0, 0, 0, 0, 0, 0, 0, 0, 0, 0, 0, 0],
                      g_countdown :=
                        [1, 1, 1, 1, 1, 1, 1, 1, 1, 1, 1, 1, 1, 1, 1, 1, 1, 1, 1, 1, 1],
                      g_max := [2, 2, 2, 2, 2, 2, 2, 2, 2, 2, 2, 2, 2, 2, 2, 2, 2, 2, 2, 2, 2] \<rparr>"

text \<open>
  A partition of two elements whose gates use the absolute value and the reciprocal as
  transfer functions, with threshold 2, amplification 3 and upper bound 5.
\<close>

definition two_gates :: partition where
  "two_gates =
     (init 0 2 1 1)\<lparr> a := [- 3, 4],
                      g_function_selector := [GATE_FUNCTION_ABSOLUTE, GATE_FUNCTION_DIST],
                      has_gatefunction_absolute := True,
                      has_gatefunction_one_over_x := True,
                      g_threshold := [2, 2], g_amplification := [3, 3], g_max := [5, 5] \<rparr>"

text \<open>
  A partition with two Registers in nodespace 1, node 1 at element 1 and node 2 at element
  2, as create_node leaves them.
\<close>

definition two_registers :: partition where
  "two_registers =
     (init 0 3 1 2)\<lparr> allocated_nodes := [0, REGISTER, REGISTER],
                      allocated_node_offsets := [0, 1, 2],
                      allocated_node_parents := [0, 1, 1],
                      allocated_elements_to_nodes := [0, 1, 2],
                      last_allocated_node := 2, last_allocated_offset := 2 \<rparr>"

section \<open>Verified properties\<close>

subsection \<open>Unfolding the constants\<close>

lemmas gate_index_defs = GEN_def POR_def RET_def SUB_def SUR_def CAT_def EXP_def
  GIN_def GOU_def GFG_def

lemmas gate_function_defs = GATE_FUNCTION_IDENTITY_def GATE_FUNCTION_ABSOLUTE_def
  GATE_FUNCTION_SIGMOID_def GATE_FUNCTION_TANH_def GATE_FUNCTION_RECT_def
  GATE_FUNCTION_DIST_def

lemmas node_function_defs = NFPG_PIPE_NON_def NFPG_PIPE_GEN_def NFPG_PIPE_POR_def
  NFPG_PIPE_RET_def NFPG_PIPE_SUB_def NFPG_PIPE_SUR_def NFPG_PIPE_CAT_def NFPG_PIPE_EXP_def
  NFPG_LSTM_GEN_def NFPG_LSTM_POR_def NFPG_LSTM_GIN_def NFPG_LSTM_GOU_def NFPG_LSTM_GFG_def


subsection \<open>Properties of the propagation\<close>

lemma sum_list_map2_mult:
  "length xs = length ys \<Longrightarrow>
     sum_list (map2 (*) xs ys) = (\<Sum>j<length ys. xs ! j * ys ! (j::nat) :: real)"
proof -
  assume len: "length xs = length ys"
  have "sum_list (map2 (*) xs ys) = (\<Sum>j = 0..<length (map2 (*) xs ys). map2 (*) xs ys ! j)"
    by (rule sum_list_sum_nth)
  also have "\<dots> = (\<Sum>j = 0..<length ys. xs ! j * ys ! j)"
    using len by (intro sum.cong) simp_all
  finally show ?thesis
    by (simp add: atLeast0LessThan)
qed

lemma dot_nth:
  assumes "i < length m" and "length (m ! i) = length v"
  shows "dot m v ! i = (\<Sum>j<length v. m ! i ! j * v ! j)"
  using assms by (simp add: dot_def sum_list_map2_mult)

text \<open>
  Claim C1. For every partition state whose arrays have the shapes the partition keeps, one
  call of propagate returns, and the state it returns has a_prev equal to the old a, each
  a[i] equal to the old a_in[i] plus the i-th row of W times the old a, a_in all zero, and
  every other field as before.
\<close>

theorem propagate_contract:
  assumes "shapes_aligned p"
  shows "\<exists>p'. propagate p = Inr p'
           \<and> a_prev p' = a p
           \<and> length (a p') = length (a_in p)
           \<and> (\<forall>i<length (a_in p).
                 a p' ! i = a_in p ! i + (\<Sum>j<length (a p). w p ! i ! j * a p ! j))
           \<and> a_in p' = replicate (length (a_in p)) 0
           \<and> (\<forall>i<length (a_in p'). a_in p' ! i = 0)
           \<and> p'\<lparr> a_prev := a_prev p, a := a p, a_in := a_in p \<rparr> = p"
proof -
  let ?p' = "p\<lparr> a_prev := a p, a := map2 (+) (a_in p) (dot (w p) (a p)),
                a_in := replicate (length (a_in p)) 0 \<rparr>"
  from assms have rows: "length (w p) = length (a_in p)"
    and cols: "\<And>i. i < length (w p) \<Longrightarrow> length (w p ! i) = length (a p)"
    by (simp_all add: shapes_aligned_def list_all_length)
  have ret: "propagate p = Inr ?p'"
    using assms by (simp add: propagate_def)
  have len: "length (a ?p') = length (a_in p)"
    using rows by (simp add: dot_def)
  have val: "\<forall>i<length (a_in p).
               a ?p' ! i = a_in p ! i + (\<Sum>j<length (a p). w p ! i ! j * a p ! j)"
  proof (intro allI impI)
    fix i assume i: "i < length (a_in p)"
    with rows have iw: "i < length (w p)" by simp
    have "length (dot (w p) (a p)) = length (w p)" by (simp add: dot_def)
    with i rows have "a ?p' ! i = a_in p ! i + dot (w p) (a p) ! i" by simp
    also have "dot (w p) (a p) ! i = (\<Sum>j<length (a p). w p ! i ! j * a p ! j)"
      using iw cols [OF iw] by (rule dot_nth)
    finally show "a ?p' ! i = a_in p ! i + (\<Sum>j<length (a p). w p ! i ! j * a p ! j)" .
  qed
  have zero: "a_in ?p' = replicate (length (a_in p)) 0" by simp
  have zero_nth: "\<forall>i<length (a_in ?p'). a_in ?p' ! i = 0" by simp
  have frame: "?p'\<lparr> a_prev := a_prev p, a := a p, a_in := a_in p \<rparr> = p" by simp
  from ret len val zero zero_nth frame show ?thesis
    by (intro exI [of _ ?p']) simp
qed

theorem propagate_contract_witness:
  "shapes_aligned ((init 0 2 1 1)\<lparr> w := [[0, 1 / 2], [0, 0]], a := [0, 1], a_in := [1 / 4, 0] \<rparr>)
   \<and> (\<exists>p'. propagate ((init 0 2 1 1)\<lparr> w := [[0, 1 / 2], [0, 0]], a := [0, 1],
                                        a_in := [1 / 4, 0] \<rparr>) = Inr p'
          \<and> a_prev p' = [0, 1] \<and> a p' = [3 / 4, 0] \<and> a_in p' = [0, 0])"
proof -
  let ?p = "(init 0 2 1 1)\<lparr> w := [[0, 1 / 2], [0, 0]], a := [0, 1], a_in := [1 / 4, 0] \<rparr>"
  have h: "shapes_aligned ?p" by (simp add: shapes_aligned_def)
  from propagate_contract [OF h] obtain p' where ret: "propagate ?p = Inr p'"
    and prev: "a_prev p' = a ?p" and zero: "a_in p' = replicate (length (a_in ?p)) 0"
    by blast
  from ret h have "p' = ?p\<lparr> a_prev := a ?p, a := map2 (+) (a_in ?p) (dot (w ?p) (a ?p)),
                             a_in := replicate (length (a_in ?p)) 0 \<rparr>"
    by (simp add: propagate_def)
  then have "a p' = [3 / 4, 0]" by (simp add: dot_def)
  with h ret prev zero show ?thesis by (simp add: numeral_2_eq_2)
qed

subsection \<open>Fields of a fresh partition\<close>

lemma init_fields [simp]:
  "pid (init q n e s) = q"
  "NoN (init q n e s) = n"
  "NoE (init q n e s) = (n * e)"
  "NoNS (init q n e s) = s"
  "sparse (init q n e s) = True"
  "allocated_nodes (init q n e s) = replicate n 0"
  "nodes_last_changed (init q n e s) = replicate n (- 1)"
  "allocated_node_offsets (init q n e s) = replicate n 0"
  "allocated_elements_to_nodes (init q n e s) = replicate (n * e) 0"
  "allocated_node_parents (init q n e s) = replicate n 0"
  "allocated_nodespaces (init q n e s) = replicate s 0"
  "nodespaces_last_changed (init q n e s) = replicate s (- 1)"
  "nodespaces_contents_last_changed (init q n e s) = replicate s (- 1)"
  "allocated_nodespaces_por_activators (init q n e s) = replicate s 0"
  "allocated_nodespaces_ret_activators (init q n e s) = replicate s 0"
  "allocated_nodespaces_sub_activators (init q n e s) = replicate s 0"
  "allocated_nodespaces_sur_activators (init q n e s) = replicate s 0"
  "allocated_nodespaces_cat_activators (init q n e s) = replicate s 0"
  "allocated_nodespaces_exp_activators (init q n e s) = replicate s 0"
  "allocated_nodespaces_sampling_activators (init q n e s) = replicate s 0"
  "allocated_elements_to_activators (init q n e s) = replicate (n * e) 0"
  "nodegroups (init q n e s) = Map.empty"
  "inlinks (init q n e s) = []"
  "w (init q n e s) = replicate (n * e) (replicate (n * e) 0)"
  "t (init q n e s) = 0"
  "a (init q n e s) = replicate (n * e) 0"
  "a_in (init q n e s) = replicate (n * e) 0"
  "a_prev (init q n e s) = replicate (n * e) 0"
  "g_theta (init q n e s) = replicate (n * e) 0"
  "g_factor (init q n e s) = replicate (n * e) 1"
  "g_threshold (init q n e s) = replicate (n * e) 0"
  "g_amplification (init q n e s) = replicate (n * e) 1"
  "g_min (init q n e s) = replicate (n * e) 0"
  "g_max (init q n e s) = replicate (n * e) 1"
  "g_function_selector (init q n e s) = replicate (n * e) 0"
  "g_expect (init q n e s) = replicate (n * e) 1"
  "g_countdown (init q n e s) = replicate (n * e) 0"
  "g_wait (init q n e s) = replicate (n * e) 1"
  "n_function_selector (init q n e s) = replicate (n * e) 0"
  "n_node_porlinked (init q n e s) = replicate (n * e) 0"
  "n_node_retlinked (init q n e s) = replicate (n * e) 0"
  "has_new_usages (init q n e s) = True"
  "has_pipes (init q n e s) = False"
  "has_lstms (init q n e s) = False"
  "has_directional_activators (init q n e s) = False"
  "has_sampling_activators (init q n e s) = False"
  "has_gatefunction_absolute (init q n e s) = False"
  "has_gatefunction_sigmoid (init q n e s) = False"
  "has_gatefunction_tanh (init q n e s) = False"
  "has_gatefunction_rect (init q n e s) = False"
  "has_gatefunction_one_over_x (init q n e s) = False"
  "por_ret_dirty (init q n e s) = True"
  "last_allocated_node (init q n e s) = 0"
  "last_allocated_offset (init q n e s) = 0"
  "last_allocated_nodespace (init q n e s) = 0"
  by (simp_all add: init_def Let_def)


subsection \<open>The shifted view inside the buffer\<close>

lemma np_roll_nth:
  "j < length xs \<Longrightarrow>
     np_roll k xs ! j = xs ! ((j + (length xs - k mod length xs)) mod length xs)"
  by (auto simp add: np_roll_def nth_rotate add.commute)

lemma as_strided_np_roll:
  assumes "7 \<le> i + k" and "i + k < length xs"
  shows "as_strided (np_roll 7 xs) i k = xs ! (i + k - 7)"
proof -
  let ?n = "length xs"
  from assms have n: "7 < ?n" by simp
  then have m: "7 mod ?n = 7" by simp
  have e: "i + k + (?n - 7) = (i + k - 7) + ?n"
    using assms n by arith
  have "(i + k + (?n - 7)) mod ?n = (i + k - 7) mod ?n"
    unfolding e by simp
  also have "\<dots> = i + k - 7"
    using assms by simp
  finally have "(i + k + (?n - 7)) mod ?n = i + k - 7" .
  with assms m show ?thesis
    by (simp add: as_strided_def np_roll_nth)
qed

subsection \<open>The RECT transfer function\<close>

text \<open>
  Claim C8 says that a RECT gate passes x + theta when x + theta > 0 and 0 otherwise. The
  source tests x + theta > 0 but passes x - theta: with theta = 1 the value 3 becomes 2,
  not 4, and the value 0 becomes -1, a negative output of a rectifier.
\<close>

theorem rect_gate_subtracts_theta:
  "gate_function_output
     ((init 0 1 1 1)\<lparr> g_function_selector := [GATE_FUNCTION_RECT], g_theta := [1],
                       has_gatefunction_rect := True \<rparr>) 0 3 = 2
   \<and> gate_function_output
     ((init 0 1 1 1)\<lparr> g_function_selector := [GATE_FUNCTION_RECT], g_theta := [1],
                       has_gatefunction_rect := True \<rparr>) 0 0 = - 1"
  by (simp add: gate_function_output_def switch_def gate_function_defs)


subsection \<open>Node id allocation\<close>

text \<open>
  Claim C9 says that create_node reuses a free id below the allocation hint before it grows
  the id vectors. In a partition with six node ids, five Registers get the ids 1 to 5; the
  nodes 2 and 5 are deleted and the next node gets id 5 again. The next create_node call
  finds no free id above the hint 5; its second scan stops at index 0, which is free, and
  leaves the id at 0, so the vectors grow to 9 ids and the node gets id 6, although id 2
  is free.
\<close>

theorem create_node_grows_although_lower_id_is_free:
  "(case and_then (create_node (plain_nodenet 0) ''Register'' 1 None None [] [] (init 0 6 1 2)) (\<lambda>(i1, p1).
         and_then (create_node (plain_nodenet 0) ''Register'' 1 None None [] [] p1) (\<lambda>(i2, p2).
         and_then (create_node (plain_nodenet 0) ''Register'' 1 None None [] [] p2) (\<lambda>(i3, p3).
         and_then (create_node (plain_nodenet 0) ''Register'' 1 None None [] [] p3) (\<lambda>(i4, p4).
         and_then (create_node (plain_nodenet 0) ''Register'' 1 None None [] [] p4) (\<lambda>(i5, p5).
         and_then (delete_node (plain_nodenet 0) 2 p5) (\<lambda>p6.
         and_then (delete_node (plain_nodenet 0) 5 p6) (\<lambda>p7.
         and_then (create_node (plain_nodenet 0) ''Register'' 1 None None [] [] p7) (\<lambda>(i8, p8).
         and_then (create_node (plain_nodenet 0) ''Register'' 1 None None [] [] p8) (\<lambda>(i9, p9).
           Inr ([i1, i2, i3, i4, i5, i8, i9], allocated_nodes p8, last_allocated_node p8, NoN p8,
                NoN p9, allocated_nodes p9)))))))))) of
      Inl e \<Rightarrow> False
    | Inr r \<Rightarrow> r = ([1, 2, 3, 4, 5, 5, 6], [0, 1, 0, 1, 1, 1], 5, 6,
                     9, [0, 1, 0, 1, 1, 1, 1, 0, 0]))"
  by code_simp

subsection \<open>The por-linked flags after set_link_weight\<close>

text \<open>
  Claim C3 says that the por-linked flags of a Pipe are 1 exactly when the row of its por
  slot has a non-zero weight, also after set_link_weight calls that set a weight to zero.
  With two links into the por slot of the Pipe (from the Register's gen gate and from the
  Pipe's own gen gate) all seven flags are 1. Setting the first link's weight to 0 sets all
  seven flags to 0, although the row of the por slot (row 2) still holds the weight 1 of
  the second link; rebuild_por_linked on the same state gives the seven flags 1.
\<close>

theorem set_link_weight_zero_clears_por_linked:
  "(case and_then (Inr (state_of (set_link_weight (plain_nodenet 0) 2 ''gen'' 1 ''por'' 1 pipe_and_register))) (\<lambda>p4.
         and_then (Inr (state_of (set_link_weight (plain_nodenet 0) 1 ''gen'' 1 ''por'' 1 p4))) (\<lambda>p5.
         and_then (Inr (state_of (set_link_weight (plain_nodenet 0) 2 ''gen'' 1 ''por'' 0 p5))) (\<lambda>p6.
         and_then (rebuild_por_linked p6) (\<lambda>p7.
              Inr (n_node_porlinked p5, n_node_porlinked p6, w p6 ! 2, n_node_porlinked p7))))) of
      Inl e \<Rightarrow> False
    | Inr r \<Rightarrow> r = ([0, 1, 1, 1, 1, 1, 1, 1, 0],
                     [0, 0, 0, 0, 0, 0, 0, 0, 0],
                     [0, 1, 0, 0, 0, 0, 0, 0, 0],
                     [0, 1, 1, 1, 1, 1, 1, 1, 0]))"
  by code_simp

subsection \<open>Order of the gate logic\<close>

lemma gate_function_output_selected:
  "gate_function_output p i x =
     (if g_function_selector p ! i = GATE_FUNCTION_ABSOLUTE \<and> has_gatefunction_absolute p
      then \<bar>x\<bar>
      else if g_function_selector p ! i = GATE_FUNCTION_SIGMOID \<and> has_gatefunction_sigmoid p
      then 1 / (1 + exp (- (x + g_theta p ! i)))
      else if g_function_selector p ! i = GATE_FUNCTION_TANH \<and> has_gatefunction_tanh p
      then tanh (x + g_theta p ! i)
      else if g_function_selector p ! i = GATE_FUNCTION_RECT \<and> has_gatefunction_rect p
      then (if x + g_theta p ! i > 0 then x - g_theta p ! i else 0)
      else if g_function_selector p ! i = GATE_FUNCTION_DIST \<and> has_gatefunction_one_over_x p
      then (if x \<noteq> 0 then 1 / x else 0)
      else x)"
  unfolding gate_function_output_def Let_def switch_def sigmoid_def gate_function_defs
  by (cases "has_gatefunction_absolute p"; cases "has_gatefunction_sigmoid p";
      cases "has_gatefunction_tanh p"; cases "has_gatefunction_rect p";
      cases "has_gatefunction_one_over_x p"; simp)

text \<open>
  Claim C6. For every element i the node calculation writes to a[i] the result of, in this
  order: the transfer function that the element's selector picks among those in use (the
  absolute value, the logistic function of x + theta, the hyperbolic tangent of x + theta,
  the rectifier as the source has it, the reciprocal with 0 at 0, and the identity
  otherwise), applied to the node function's value x; then thresholding (the value is kept
  iff it is at least the threshold, else it becomes 0); then multiplication by the
  amplification; then clipping to [min, max].
\<close>

theorem gate_transfer_order:
  assumes "elementwise_aligned p" and "i < NoE p"
  shows "\<exists>p'. calculate_nodes slots biases p = Inr p'
           \<and> a p' ! i =
               (let x = nodefunctions p slots biases i;
                    sel = g_function_selector p ! i;
                    theta = g_theta p ! i;
                    transferred =
                      (if sel = GATE_FUNCTION_ABSOLUTE \<and> has_gatefunction_absolute p
                       then \<bar>x\<bar>
                       else if sel = GATE_FUNCTION_SIGMOID \<and> has_gatefunction_sigmoid p
                       then 1 / (1 + exp (- (x + theta)))
                       else if sel = GATE_FUNCTION_TANH \<and> has_gatefunction_tanh p
                       then tanh (x + theta)
                       else if sel = GATE_FUNCTION_RECT \<and> has_gatefunction_rect p
                       then (if x + theta > 0 then x - theta else 0)
                       else if sel = GATE_FUNCTION_DIST \<and> has_gatefunction_one_over_x p
                       then (if x \<noteq> 0 then 1 / x else 0)
                       else x);
                    thresholded = (if transferred \<ge> g_threshold p ! i then transferred else 0);
                    amplified = thresholded * g_amplification p ! i
                in if amplified < g_min p ! i then g_min p ! i
                   else if amplified > g_max p ! i then g_max p ! i
                   else amplified)"
    (is "\<exists>p'. _ = Inr p' \<and> a p' ! i = ?rhs")
proof -
  let ?p' = "p\<lparr> a := map (\<lambda>i. gatefunctions p i (nodefunctions p slots biases i)) [0..<NoE p],
                g_countdown := (if has_pipes p then map (countdown p slots) [0..<NoE p]
                                else g_countdown p) \<rparr>"
  from assms have ret: "calculate_nodes slots biases p = Inr ?p'"
    by (simp add: calculate_nodes_def)
  from assms have val: "a ?p' ! i = gatefunctions p i (nodefunctions p slots biases i)"
    by simp
  have "a ?p' ! i = ?rhs"
    unfolding val
    by (simp only: gatefunctions_def limited_gate_function_output_def
        amplified_gate_function_output_def thresholded_gate_function_output_def
        gate_function_output_selected switch_def clip_def Let_def)
  with ret show ?thesis
    by (intro exI [of _ ?p'] conjI)
qed

theorem gate_transfer_order_witness:
  "elementwise_aligned two_gates \<and> 0 < NoE two_gates \<and> 1 < NoE two_gates
   \<and> (\<exists>p'. calculate_nodes (a_shifted two_gates) (g_theta_shifted two_gates) two_gates = Inr p'
          \<and> a p' ! 0 = 5 \<and> a p' ! 1 = 0)"
proof -
  have al: "elementwise_aligned two_gates"
    by (simp add: elementwise_aligned_def two_gates_def)
  have n0: "0 < NoE two_gates" and n1: "1 < NoE two_gates"
    by (simp_all add: two_gates_def)
  have nf0: "nodefunctions two_gates (a_shifted two_gates) (g_theta_shifted two_gates) 0 = - 3"
    and nf1: "nodefunctions two_gates (a_shifted two_gates) (g_theta_shifted two_gates) 1 = 4"
    by (simp_all add: nodefunctions_def two_gates_def)
  have f: "g_function_selector two_gates = [GATE_FUNCTION_ABSOLUTE, GATE_FUNCTION_DIST]"
    "has_gatefunction_absolute two_gates" "has_gatefunction_one_over_x two_gates"
    "g_threshold two_gates = [2, 2]" "g_amplification two_gates = [3, 3]"
    "g_min two_gates = [0, 0]" "g_max two_gates = [5, 5]"
    by (simp_all add: two_gates_def numeral_2_eq_2)
  from gate_transfer_order [OF al n0, of "a_shifted two_gates" "g_theta_shifted two_gates",
      unfolded nf0]
  obtain p0 where r0: "calculate_nodes (a_shifted two_gates) (g_theta_shifted two_gates) two_gates = Inr p0"
    and v0: "a p0 ! 0 = 5"
    by (auto simp add: Let_def f gate_function_defs)
  from gate_transfer_order [OF al n1, of "a_shifted two_gates" "g_theta_shifted two_gates",
      unfolded nf1]
  obtain p1 where r1: "calculate_nodes (a_shifted two_gates) (g_theta_shifted two_gates) two_gates = Inr p1"
    and v1: "a p1 ! 1 = 0"
    by (auto simp add: Let_def f gate_function_defs)
  from r0 r1 have "p0 = p1" by simp
  with al n0 n1 r0 v0 v1 show ?thesis by blast
qed

subsection \<open>The gen-loop thresholds of the Pipe rules\<close>

lemma nodefunctions_pipe_por:
  assumes "has_pipes p" and "n_function_selector p ! i = NFPG_PIPE_POR"
  shows "nodefunctions p slots biases i =
           pipe_por (slots i) (g_expect p ! i) (g_countdown p ! i) (n_node_porlinked p ! i)
             * (if has_directional_activators p then g_factor p ! i else 1)"
  using assms by (simp add: nodefunctions_def Let_def switch_def node_function_defs)

lemma nodefunctions_pipe_sur:
  assumes "has_pipes p" and "n_function_selector p ! i = NFPG_PIPE_SUR"
  shows "nodefunctions p slots biases i =
           pipe_sur (slots i) (g_expect p ! i) (g_countdown p ! i) (n_node_porlinked p ! i)
               (n_node_retlinked p ! i)
             * (if has_directional_activators p then g_factor p ! i else 1)"
  using assms by (simp add: nodefunctions_def Let_def switch_def node_function_defs)

lemma calculate_nodes_nth:
  assumes "elementwise_aligned p" and "i < NoE p"
  shows "\<exists>p'. calculate_nodes slots biases p = Inr p'
           \<and> a p' ! i = gatefunctions p i (nodefunctions p slots biases i)"
  using assms by (simp add: calculate_nodes_def)

text \<open>
  The Pipe elements are those that create_pipe marks: it sets the usage flag of the Pipes and
  gives the elements at the offsets of the por and sur gates the selectors of the por and
  sur rules.
\<close>

lemma create_pipe_selectors:
  assumes "create_pipe net nodespace_id offset p = Inr p'"
  shows "has_pipes p'"
    and "n_function_selector p' ! (offset + POR) = NFPG_PIPE_POR"
    and "n_function_selector p' ! (offset + SUR) = NFPG_PIPE_SUR"
  using assms
  by (auto simp add: create_pipe_def set_has_pipes_def Let_def gate_index_defs
      node_function_defs split: if_splits)

text \<open>
  Claim C7. In a partition that has Pipes, the node calculation gives every element whose
  node function is the Pipe's por rule the gate logic's value of the por rule, and every
  element whose node function is the Pipe's sur rule that of the sur rule. The por rule
  reads gen, por, sub and sur from the columns 6, 7, 9 and 10 of the element's row of the
  shifted view and starts from the base value sur + [gen > 0.1]; the sur rule reads gen,
  por, ret, sub, sur and exp from the columns 3, 4, 5, 6, 7 and 9 and starts from the base
  value sur + [gen > 0.2] + exp * sub. What follows the base value is the rest of each rule:
  the drop of an unconfirmed sur value, the timeout of the countdown, the conditions on the
  por, ret and sub slots, the search term of the por rule and the gate factor.
\<close>

theorem pipe_gen_loop_thresholds:
  assumes "elementwise_aligned p" and "has_pipes p" and "i < NoE p"
  shows "\<exists>p'. calculate_nodes slots biases p = Inr p'
           \<and> (n_function_selector p ! i = NFPG_PIPE_POR \<longrightarrow>
                a p' ! i = gatefunctions p i
                  ((let gen = slots i 6; por = slots i 7; sub = slots i 9; sur = slots i 10;
                        base = sur + (if gen > 0.1 then 1 else 0);
                        timed = (if g_countdown p ! i \<le> 0 \<and> base < g_expect p ! i
                                 then - 1 else base);
                        cond = (if n_node_porlinked p ! i = 1
                                then (if por > 0 then 1 else 0) else 1)
                               * (if sub > 0 then 1 else 0)
                    in timed * cond
                       + por * (if sub = 0 then 1 else 0) * (if sur = 0 then 1 else 0))
                   * (if has_directional_activators p then g_factor p ! i else 1)))
           \<and> (n_function_selector p ! i = NFPG_PIPE_SUR \<longrightarrow>
                a p' ! i = gatefunctions p i
                  ((let gen = slots i 3; por = slots i 4; ret = slots i 5; sub = slots i 6;
                        sur = slots i 7; exp_slot = slots i 9;
                        base = sur + (if gen > 0.2 then 1 else 0) + exp_slot * sub;
                        confirmed = (if base < g_expect p ! i \<and> base > 0 then 0 else base);
                        timed = (if g_countdown p ! i \<le> 0 \<and> confirmed < g_expect p ! i
                                 then - 1 else confirmed)
                    in timed * (if n_node_retlinked p ! i = 1 then ret else 1)
                       * (if n_node_porlinked p ! i = 0 \<or> por > 0 then 1 else 0))
                   * (if has_directional_activators p then g_factor p ! i else 1)))"
proof -
  from calculate_nodes_nth [OF assms(1) assms(3)]
  obtain p' where ret: "calculate_nodes slots biases p = Inr p'"
    and val: "a p' ! i = gatefunctions p i (nodefunctions p slots biases i)"
    by blast
  have por: "n_function_selector p ! i = NFPG_PIPE_POR \<Longrightarrow>
      nodefunctions p slots biases i =
        ((let gen = slots i 6; por = slots i 7; sub = slots i 9; sur = slots i 10;
              base = sur + (if gen > 0.1 then 1 else 0);
              timed = (if g_countdown p ! i \<le> 0 \<and> base < g_expect p ! i
                       then - 1 else base);
              cond = (if n_node_porlinked p ! i = 1
                      then (if por > 0 then 1 else 0) else 1)
                     * (if sub > 0 then 1 else 0)
          in timed * cond
             + por * (if sub = 0 then 1 else 0) * (if sur = 0 then 1 else 0))
         * (if has_directional_activators p then g_factor p ! i else 1))"
    using assms(2)
    by (simp only: nodefunctions_pipe_por pipe_por_def pipe_por_base_def pipe_por_cond_def
        switch_def Let_def of_bool_def)
  have sur: "n_function_selector p ! i = NFPG_PIPE_SUR \<Longrightarrow>
      nodefunctions p slots biases i =
        ((let gen = slots i 3; por = slots i 4; ret = slots i 5; sub = slots i 6;
              sur = slots i 7; exp_slot = slots i 9;
              base = sur + (if gen > 0.2 then 1 else 0) + exp_slot * sub;
              confirmed = (if base < g_expect p ! i \<and> base > 0 then 0 else base);
              timed = (if g_countdown p ! i \<le> 0 \<and> confirmed < g_expect p ! i
                       then - 1 else confirmed)
          in timed * (if n_node_retlinked p ! i = 1 then ret else 1)
             * (if n_node_porlinked p ! i = 0 \<or> por > 0 then 1 else 0))
         * (if has_directional_activators p then g_factor p ! i else 1))"
    using assms(2)
    by (simp only: nodefunctions_pipe_sur pipe_sur_def pipe_sur_confirmed_def pipe_sur_base_def
        switch_def Let_def of_bool_def)
  from ret val por sur show ?thesis
    by (intro exI [of _ p'] conjI impI) simp_all
qed

theorem pipe_gen_loop_thresholds_witness:
  "elementwise_aligned single_pipe \<and> has_pipes single_pipe
   \<and> 2 < NoE single_pipe \<and> 5 < NoE single_pipe
   \<and> n_function_selector single_pipe ! 2 = NFPG_PIPE_POR
   \<and> n_function_selector single_pipe ! 5 = NFPG_PIPE_SUR
   \<and> a single_pipe ! 1 = 3 / 20
   \<and> (\<exists>p'. calculate_nodes (a_shifted single_pipe) (g_theta_shifted single_pipe) single_pipe
              = Inr p'
          \<and> a p' ! 2 = 3 / 2 \<and> a p' ! 5 = 0)"
proof -
  have al: "elementwise_aligned single_pipe"
    by (simp add: elementwise_aligned_def single_pipe_def)
  have hp: "has_pipes single_pipe"
    by (simp add: single_pipe_def)
  have n2: "2 < NoE single_pipe" and n5: "5 < NoE single_pipe"
    by (simp_all add: single_pipe_def)
  have s2: "n_function_selector single_pipe ! 2 = NFPG_PIPE_POR"
    and s5: "n_function_selector single_pipe ! 5 = NFPG_PIPE_SUR"
    and s2': "n_function_selector single_pipe ! 2 \<noteq> NFPG_PIPE_SUR"
    and s5': "n_function_selector single_pipe ! 5 \<noteq> NFPG_PIPE_POR"
    by (simp_all add: single_pipe_def node_function_defs)
  have gen: "a single_pipe ! 1 = 3 / 20"
    by (simp add: single_pipe_def)
  have len: "length (a single_pipe) = 21"
    by (simp add: single_pipe_def)
  have view: "\<And>i k. 7 \<le> i + k \<Longrightarrow> i + k < 21 \<Longrightarrow>
      a_shifted single_pipe i k = a single_pipe ! (i + k - 7)"
    unfolding a_shifted_def using len by (simp add: as_strided_np_roll)
  have slots2: "a_shifted single_pipe 2 6 = 3 / 20" "a_shifted single_pipe 2 7 = 1"
    "a_shifted single_pipe 2 9 = 1" "a_shifted single_pipe 2 10 = 1 / 2"
    by (simp_all add: view) (simp_all add: single_pipe_def)
  have slots5: "a_shifted single_pipe 5 3 = 3 / 20" "a_shifted single_pipe 5 4 = 1"
    "a_shifted single_pipe 5 5 = 0" "a_shifted single_pipe 5 6 = 1"
    "a_shifted single_pipe 5 7 = 1 / 2" "a_shifted single_pipe 5 9 = 0"
    by (simp_all add: view) (simp_all add: single_pipe_def)
  have par2: "g_countdown single_pipe ! 2 = 1" "g_expect single_pipe ! 2 = 1"
    "n_node_porlinked single_pipe ! 2 = 0" "\<not> has_directional_activators single_pipe"
    "g_countdown single_pipe ! 5 = 1" "g_expect single_pipe ! 5 = 1"
    "n_node_porlinked single_pipe ! 5 = 0" "n_node_retlinked single_pipe ! 5 = 0"
    by (simp_all add: single_pipe_def)
  have gf: "gatefunctions single_pipe 2 (3 / 2) = 3 / 2" "gatefunctions single_pipe 5 0 = 0"
    by (simp_all add: gatefunctions_def limited_gate_function_output_def
        amplified_gate_function_output_def thresholded_gate_function_output_def
        gate_function_output_def switch_def clip_def Let_def single_pipe_def)
  from pipe_gen_loop_thresholds [OF al hp n2,
      of "a_shifted single_pipe" "g_theta_shifted single_pipe"]
  obtain p2 where r2: "calculate_nodes (a_shifted single_pipe) (g_theta_shifted single_pipe)
                         single_pipe = Inr p2"
    and v2: "a p2 ! 2 = 3 / 2"
    using s2 by (auto simp add: Let_def slots2 par2 gf)
  from pipe_gen_loop_thresholds [OF al hp n5,
      of "a_shifted single_pipe" "g_theta_shifted single_pipe"]
  obtain p5 where r5: "calculate_nodes (a_shifted single_pipe) (g_theta_shifted single_pipe)
                         single_pipe = Inr p5"
    and v5: "a p5 ! 5 = 0"
    using s5 by (auto simp add: Let_def slots5 par2 gf)
  from r2 r5 have "p2 = p5" by simp
  with al hp n2 n5 s2 s5 gen r2 v2 v5 show ?thesis by blast
qed

subsection \<open>Invalid arguments of the editing and bulk API\<close>

text \<open>
  The test of set_link_weight compares the 0-based index of the gate with the number of
  gates of the type by \<open>>\<close>, so the first gate that the type does not have passes it: a
  link from the por gate of a Register (one gate, gen) is accepted and written to the
  column of the element that follows the Register, here the gen gate of the second
  Register.
\<close>

lemma register_por_gate_is_accepted:
  "(case set_link_weight (plain_nodenet 0) 1 ''por'' 2 ''gen'' 1 two_registers of
      Raised e p' \<Rightarrow> False
    | Returned u p' \<Rightarrow> w two_registers ! 2 ! 2 = 0 \<and> w p' ! 2 ! 2 = 1)"
  by code_simp





end
